theory Spec2Isabelle
  imports Main "HOL-Library.Word"
begin

section \<open>The notification subsystem of the chat backend\<close>

text \<open>
  A shallow embedding of \<^verbatim>\<open>handlers/notifications.go\<close>, of the notification sweep of
  \<^verbatim>\<open>config/database.go\<close> and of the expiry setting of \<^verbatim>\<open>config/notifications.go\<close>.

  The handlers talk to three collaborators that are not part of the repository: the
  document store (MongoDB driver), the web framework (gin) and the clock. Each is made
  explicit:
  \<^item> a collection is the list of its documents in insertion order, with a flag telling
    whether the driver reports an error on it; a handler takes the database handle
    \<open>DB\<close> (nil before initialisation) and returns it with the collections updated;
  \<^item> a request context carries the keys set by the middleware, the path parameters
    and the query arguments;
  \<^item> every reading of \<^verbatim>\<open>time.Now()\<close> is an argument. Instants and durations are
    integers counting nanoseconds.
\<close>

subsection \<open>Identifiers\<close>

type_synonym ObjectID = "8 word list"
type_synonym Time = int
type_synonym Duration = int

definition NilObjectID :: ObjectID where
  "NilObjectID = [0, 0, 0, 0, 0, 0, 0, 0, 0, 0, 0, 0]"

datatype hex_error = ErrInvalidHex | InvalidByteError char

text \<open>\<^verbatim>\<open>encoding/hex\<close>: the value of one hexadecimal digit, in either case.\<close>

definition fromHexChar :: "char \<Rightarrow> nat option" where
  "fromHexChar c =
     (let n = (of_char c :: nat) in
      if 48 \<le> n \<and> n \<le> 57 then Some (n - 48)
      else if 97 \<le> n \<and> n \<le> 102 then Some (n - 97 + 10)
      else if 65 \<le> n \<and> n \<le> 70 then Some (n - 65 + 10)
      else None)"

fun hex_Decode :: "string \<Rightarrow> hex_error + 8 word list" where
  "hex_Decode [] = Inr []"
| "hex_Decode [a] =
     (case fromHexChar a of None \<Rightarrow> Inl (InvalidByteError a) | Some _ \<Rightarrow> Inl ErrInvalidHex)"
| "hex_Decode (a # b # cs) =
     (case fromHexChar a of
        None \<Rightarrow> Inl (InvalidByteError a)
      | Some h \<Rightarrow>
          (case fromHexChar b of
             None \<Rightarrow> Inl (InvalidByteError b)
           | Some l \<Rightarrow>
               (case hex_Decode cs of
                  Inl e \<Rightarrow> Inl e
                | Inr bs \<Rightarrow> Inr (word_of_nat (h * 16 + l) # bs))))"

text \<open>
  \<^verbatim>\<open>primitive.ObjectIDFromHex\<close>: exactly 24 hexadecimal digits give the 12 bytes of an
  identifier, anything else is an error.
\<close>

definition ObjectIDFromHex :: "string \<Rightarrow> hex_error + ObjectID" where
  "ObjectIDFromHex s =
     (if length s \<noteq> 24 then Inl ErrInvalidHex else hex_Decode s)"

subsection \<open>Documents\<close>

datatype MetaValue = MString string | MInt int | MBool bool

text \<open>\<^verbatim>\<open>models.Notification\<close>.\<close>

record Notification =
  ID :: ObjectID
  ProjectID :: ObjectID
  UserID :: ObjectID
  Type :: string
  Title :: string
  Message :: string
  IsRead :: bool
  CreatedAt :: Time
  ExpiresAt :: Time
  Metadata :: "(string \<times> MetaValue) list"

text \<open>\<^verbatim>\<open>config.NotificationConfig\<close>.\<close>

record NotificationConfig =
  CleanupInterval :: Duration
  DefaultExpiry :: Duration
  MaxPerUser :: int
  EnableCleanup :: bool
  RateLimitPerMinute :: int
  BurstLimit :: int
  SMTPHost :: string
  SMTPPort :: int
  SMTPUsername :: string
  SMTPPassword :: string
  SMTPFromEmail :: string
  SMTPFromName :: string
  WebhookSecret :: string
  SlackWebhookURL :: string
  DiscordWebhookURL :: string

abbreviation Hour :: Duration where
  "Hour \<equiv> 3600000000000"

subsection \<open>The document store\<close>

text \<open>
  A filter (\<^verbatim>\<open>bson.M\<close>) is a conjunction of conditions, one per field: equality with a
  value, or a strict comparison (\<^verbatim>\<open>$gt\<close>, \<^verbatim>\<open>$lt\<close>). The keys of every filter built
  below are distinct, so the map is kept as the list of its entries. A stored document is
  the struct value it decodes to, and a condition reads the struct's field.
\<close>

datatype Field = F_id | F_project_id | F_user_id | F_type | F_is_read | F_created_at | F_expires_at

datatype Value = VObjectID ObjectID | VString string | VBool bool | VTime Time

datatype Cond = Eq Value | Gt Value | Lt Value

type_synonym bson_M = "(Field \<times> Cond) list"

fun field :: "Notification \<Rightarrow> Field \<Rightarrow> Value" where
  "field d F_id = VObjectID (ID d)"
| "field d F_project_id = VObjectID (ProjectID d)"
| "field d F_user_id = VObjectID (UserID d)"
| "field d F_type = VString (Type d)"
| "field d F_is_read = VBool (IsRead d)"
| "field d F_created_at = VTime (CreatedAt d)"
| "field d F_expires_at = VTime (ExpiresAt d)"

text \<open>The order of two values; only instants are ever compared by the handlers.\<close>

fun value_less :: "Value \<Rightarrow> Value \<Rightarrow> bool" where
  "value_less (VTime a) (VTime b) = (a < b)"
| "value_less _ _ = False"

fun holds :: "Notification \<Rightarrow> Field \<times> Cond \<Rightarrow> bool" where
  "holds d (f, Eq v) = (field d f = v)"
| "holds d (f, Gt v) = value_less v (field d f)"
| "holds d (f, Lt v) = value_less (field d f) v"

definition matches :: "bson_M \<Rightarrow> Notification \<Rightarrow> bool" where
  "matches flt d = list_all (holds d) flt"

text \<open>An update document \<^verbatim>\<open>{"$set": {...}}\<close>: the fields to overwrite.\<close>

fun set_field :: "Field \<times> Value \<Rightarrow> Notification \<Rightarrow> Notification" where
  "set_field (F_id, VObjectID v) d = d\<lparr>ID := v\<rparr>"
| "set_field (F_project_id, VObjectID v) d = d\<lparr>ProjectID := v\<rparr>"
| "set_field (F_user_id, VObjectID v) d = d\<lparr>UserID := v\<rparr>"
| "set_field (F_type, VString v) d = d\<lparr>Type := v\<rparr>"
| "set_field (F_is_read, VBool v) d = d\<lparr>IsRead := v\<rparr>"
| "set_field (F_created_at, VTime v) d = d\<lparr>CreatedAt := v\<rparr>"
| "set_field (F_expires_at, VTime v) d = d\<lparr>ExpiresAt := v\<rparr>"
| "set_field _ d = d"

definition apply_set :: "(Field \<times> Value) list \<Rightarrow> Notification \<Rightarrow> Notification" where
  "apply_set upd d = fold set_field upd d"

record 'a Collection =
  docs :: "'a list"
  unavailable :: bool

datatype store_error = StoreError | DuplicateKey

record UpdateResult =
  MatchedCount :: int
  ModifiedCount :: int

record DeleteResult =
  DeletedCount :: int

fun update_first :: "('a \<Rightarrow> bool) \<Rightarrow> ('a \<Rightarrow> 'a) \<Rightarrow> 'a list \<Rightarrow> 'a list" where
  "update_first p u [] = []"
| "update_first p u (d # ds) = (if p d then u d # ds else d # update_first p u ds)"

fun delete_first :: "('a \<Rightarrow> bool) \<Rightarrow> 'a list \<Rightarrow> 'a list" where
  "delete_first p [] = []"
| "delete_first p (d # ds) = (if p d then ds else d # delete_first p ds)"

text \<open>
  \<^verbatim>\<open>InsertOne\<close>: the driver gives a document without identifier a new one (\<open>fresh\<close>), and
  the store refuses an identifier it already holds.
\<close>

definition InsertOne ::
  "Notification Collection \<Rightarrow> ObjectID \<Rightarrow> Notification \<Rightarrow>
     store_error + (ObjectID \<times> Notification Collection)" where
  "InsertOne col fresh d =
     (if unavailable col then Inl StoreError
      else
        let d' = (if ID d = NilObjectID then d\<lparr>ID := fresh\<rparr> else d) in
        if ID d' \<in> set (map ID (docs col)) then Inl DuplicateKey
        else Inr (ID d', col\<lparr>docs := docs col @ [d']\<rparr>))"

text \<open>
  \<^verbatim>\<open>Find\<close> with a sort key and a limit. \<open>key\<close> is the sort specification as a function
  to sort by in ascending order (\<^verbatim>\<open>{"created_at", -1}\<close> is the negated instant);
  documents with equal keys stay in insertion order.
\<close>

definition Find ::
  "'a Collection \<Rightarrow> ('a \<Rightarrow> bool) \<Rightarrow> ('a \<Rightarrow> int) \<Rightarrow> nat \<Rightarrow> store_error + 'a list" where
  "Find col p key limit =
     (if unavailable col then Inl StoreError
      else Inr (take limit (sort_key key (filter p (docs col)))))"

definition CountDocuments :: "'a Collection \<Rightarrow> ('a \<Rightarrow> bool) \<Rightarrow> store_error + int" where
  "CountDocuments col p =
     (if unavailable col then Inl StoreError
      else Inr (int (length (filter p (docs col)))))"

definition UpdateOne ::
  "'a Collection \<Rightarrow> ('a \<Rightarrow> bool) \<Rightarrow> ('a \<Rightarrow> 'a) \<Rightarrow> store_error + (UpdateResult \<times> 'a Collection)" where
  "UpdateOne col p u =
     (if unavailable col then Inl StoreError
      else
        (case filter p (docs col) of
           [] \<Rightarrow> Inr (\<lparr>MatchedCount = 0, ModifiedCount = 0\<rparr>, col)
         | d # _ \<Rightarrow>
             Inr (\<lparr>MatchedCount = 1, ModifiedCount = (if u d = d then 0 else 1)\<rparr>,
                  col\<lparr>docs := update_first p u (docs col)\<rparr>)))"

definition UpdateMany ::
  "'a Collection \<Rightarrow> ('a \<Rightarrow> bool) \<Rightarrow> ('a \<Rightarrow> 'a) \<Rightarrow> store_error + (UpdateResult \<times> 'a Collection)" where
  "UpdateMany col p u =
     (if unavailable col then Inl StoreError
      else
        Inr (\<lparr>MatchedCount = int (length (filter p (docs col))),
              ModifiedCount = int (length (filter (\<lambda>d. p d \<and> u d \<noteq> d) (docs col)))\<rparr>,
             col\<lparr>docs := map (\<lambda>d. if p d then u d else d) (docs col)\<rparr>))"

definition DeleteOne ::
  "'a Collection \<Rightarrow> ('a \<Rightarrow> bool) \<Rightarrow> store_error + (DeleteResult \<times> 'a Collection)" where
  "DeleteOne col p =
     (if unavailable col then Inl StoreError
      else
        Inr (\<lparr>DeletedCount = (if list_ex p (docs col) then 1 else 0)\<rparr>,
             col\<lparr>docs := delete_first p (docs col)\<rparr>))"

definition DeleteMany ::
  "'a Collection \<Rightarrow> ('a \<Rightarrow> bool) \<Rightarrow> store_error + (DeleteResult \<times> 'a Collection)" where
  "DeleteMany col p =
     (if unavailable col then Inl StoreError
      else
        Inr (\<lparr>DeletedCount = int (length (filter p (docs col)))\<rparr>,
             col\<lparr>docs := filter (\<lambda>d. \<not> p d) (docs col)\<rparr>))"

text \<open>
  The database handle \<^verbatim>\<open>config.DB\<close>. The documents of the chat-message and usage-log
  collections are kept as the one field the maintenance sweep reads, their timestamp.
\<close>

record Database =
  notifications :: "Notification Collection"
  chat_messages :: "Time Collection"
  gemini_usage_logs :: "Time Collection"

text \<open>
  \<^verbatim>\<open>log.Fatal\<close> ends the process: a call either exits or returns.
\<close>

datatype 'a exec = Exit | Returns 'a

text \<open>
  \<^verbatim>\<open>GetCollection\<close> with the name of the collection: fatal when the database is not
  initialised (the name is never empty).
\<close>

definition GetNotificationsCollection :: "Database option \<Rightarrow> Notification Collection exec" where
  "GetNotificationsCollection DB =
     (case DB of None \<Rightarrow> Exit | Some db \<Rightarrow> Returns (notifications db))"

definition GetChatMessagesCollection :: "Database option \<Rightarrow> Time Collection exec" where
  "GetChatMessagesCollection DB =
     (case DB of None \<Rightarrow> Exit | Some db \<Rightarrow> Returns (chat_messages db))"

definition GetGeminiUsageLogsCollection :: "Database option \<Rightarrow> Time Collection exec" where
  "GetGeminiUsageLogsCollection DB =
     (case DB of None \<Rightarrow> Exit | Some db \<Rightarrow> Returns (gemini_usage_logs db))"

text \<open>The database after an operation on its notification collection.\<close>

definition store_notifications :: "Database option \<Rightarrow> Notification Collection \<Rightarrow> Database option" where
  "store_notifications DB col = map_option (\<lambda>db. db\<lparr>notifications := col\<rparr>) DB"

subsection \<open>Requests and responses\<close>

text \<open>
  A request context (\<^verbatim>\<open>gin.Context\<close>): the keys the middleware has set, the path
  parameters and the query arguments. A key that is absent, or of another type, reads as
  the zero value; an absent parameter or argument reads as the empty string.
\<close>

datatype KeyValue = KBool bool | KString string

record Context =
  Keys :: "(string \<times> KeyValue) list"
  Params :: "(string \<times> string) list"
  QueryArgs :: "(string \<times> string) list"

definition GetBool :: "Context \<Rightarrow> string \<Rightarrow> bool" where
  "GetBool c k = (case map_of (Keys c) k of Some (KBool b) \<Rightarrow> b | _ \<Rightarrow> False)"

definition GetString :: "Context \<Rightarrow> string \<Rightarrow> string" where
  "GetString c k = (case map_of (Keys c) k of Some (KString s) \<Rightarrow> s | _ \<Rightarrow> [])"

definition Param :: "Context \<Rightarrow> string \<Rightarrow> string" where
  "Param c k = (case map_of (Params c) k of Some s \<Rightarrow> s | None \<Rightarrow> [])"

definition Query :: "Context \<Rightarrow> string \<Rightarrow> string" where
  "Query c k = (case map_of (QueryArgs c) k of Some s \<Rightarrow> s | None \<Rightarrow> [])"

text \<open>The body of a response (\<^verbatim>\<open>gin.H\<close>) and the response written by \<^verbatim>\<open>c.JSON\<close>.\<close>

datatype JSON =
  JString string
| JBool bool
| JInt int
| JNotifications "Notification list"
| JObject "(string \<times> JSON) list"

datatype Response = Response (status: nat) (body: "(string \<times> JSON) list")

abbreviation StatusOK :: nat where "StatusOK \<equiv> 200"
abbreviation StatusBadRequest :: nat where "StatusBadRequest \<equiv> 400"
abbreviation StatusUnauthorized :: nat where "StatusUnauthorized \<equiv> 401"
abbreviation StatusForbidden :: nat where "StatusForbidden \<equiv> 403"
abbreviation StatusNotFound :: nat where "StatusNotFound \<equiv> 404"
abbreviation StatusInternalServerError :: nat where "StatusInternalServerError \<equiv> 500"

text \<open>The notifications a response carries, and the number it reports under a key.\<close>

definition notifications_of :: "Response \<Rightarrow> Notification list" where
  "notifications_of r =
     (case map_of (body r) ''notifications'' of Some (JNotifications ns) \<Rightarrow> ns | _ \<Rightarrow> [])"

definition count_of :: "Response \<Rightarrow> string \<Rightarrow> int option" where
  "count_of r k = (case map_of (body r) k of Some (JInt n) \<Rightarrow> Some n | _ \<Rightarrow> None)"

text \<open>\<^verbatim>\<open>cursor.All\<close> decodes the documents found; stored documents always decode.\<close>

definition cursor_All :: "'a list \<Rightarrow> store_error + 'a list" where
  "cursor_All cursor = Inr cursor"

subsection \<open>Creating a notification\<close>

text \<open>
  \<^verbatim>\<open>CreateNotification\<close>. \<open>settings\<close> is \<^verbatim>\<open>config.NotificationSettings\<close> (nil until
  \<^verbatim>\<open>InitNotificationConfig\<close> has run), \<open>clock k\<close> is what the \<open>k\<close>-th reading of the
  clock in this call returns, \<open>fresh\<close> is the identifier the driver generates. The result
  is the error returned (none on success) and the database.
\<close>

definition CreateNotification ::
  "NotificationConfig option \<Rightarrow> (nat \<Rightarrow> Time) \<Rightarrow> ObjectID \<Rightarrow> Database option \<Rightarrow>
   ObjectID \<Rightarrow> ObjectID \<Rightarrow> string \<Rightarrow> string \<Rightarrow> string \<Rightarrow> (string \<times> MetaValue) list \<Rightarrow>
   (store_error option \<times> Database option) exec" where
  "CreateNotification settings clock fresh DB projectID userID notificationType title message metadata =
     (let (expiryTime, reads) =
            (case settings of
               None \<Rightarrow> (clock 0 + 24 * Hour, 1)
             | Some cfg \<Rightarrow> (clock 1 + DefaultExpiry cfg, 2));
          notification =
            \<lparr>ID = NilObjectID, ProjectID = projectID, UserID = userID,
             Type = notificationType, Title = title, Message = message,
             IsRead = False, CreatedAt = clock reads, ExpiresAt = expiryTime,
             Metadata = metadata\<rparr>
      in case GetNotificationsCollection DB of
           Exit \<Rightarrow> Exit
         | Returns collection \<Rightarrow>
             (case InsertOne collection fresh notification of
                Inl err \<Rightarrow> Returns (Some err, DB)
              | Inr (_, collection') \<Rightarrow> Returns (None, store_notifications DB collection')))"

subsection \<open>Listing\<close>

text \<open>
  The filter \<^verbatim>\<open>GetNotifications\<close> builds from the caller and the query: the expiry
  condition, the owner for a caller that is not an administrator and has a user
  identifier, the type and the project when given (a project that does not parse is
  ignored). A user identifier that does not parse ends the request.
\<close>

definition GetNotifications_filter :: "Time \<Rightarrow> Context \<Rightarrow> Response + bson_M" where
  "GetNotifications_filter now c =
     (let isAdmin = GetBool c ''is_admin'';
          userID = GetString c ''user_id'';
          filter0 = [(F_expires_at, Gt (VTime now))]
      in case (if \<not> isAdmin \<and> userID \<noteq> []
               then (case ObjectIDFromHex userID of
                       Inl err \<Rightarrow> Inl (Response StatusBadRequest [(''error'', JString ''Invalid user ID'')])
                     | Inr userObjID \<Rightarrow> Inr (filter0 @ [(F_user_id, Eq (VObjectID userObjID))]))
               else Inr filter0) of
           Inl resp \<Rightarrow> Inl resp
         | Inr filter1 \<Rightarrow>
             (let notificationType = Query c ''type'';
                  filter2 = (if notificationType \<noteq> []
                             then filter1 @ [(F_type, Eq (VString notificationType))]
                             else filter1);
                  projectID = Query c ''project_id''
              in Inr (if projectID \<noteq> []
                      then (case ObjectIDFromHex projectID of
                              Inr objID \<Rightarrow> filter2 @ [(F_project_id, Eq (VObjectID objID))]
                            | Inl err \<Rightarrow> filter2)
                      else filter2)))"

definition GetNotifications :: "Time \<Rightarrow> Context \<Rightarrow> Database option \<Rightarrow> (Response \<times> Database option) exec" where
  "GetNotifications now c DB =
     (case GetNotificationsCollection DB of
        Exit \<Rightarrow> Exit
      | Returns collection \<Rightarrow>
          (case GetNotifications_filter now c of
             Inl resp \<Rightarrow> Returns (resp, DB)
           | Inr flt \<Rightarrow>
               (case Find collection (matches flt) (\<lambda>d. - CreatedAt d) 50 of
                  Inl err \<Rightarrow>
                    Returns (Response StatusInternalServerError
                               [(''error'', JString ''Failed to fetch notifications'')], DB)
                | Inr cursor \<Rightarrow>
                    (case cursor_All cursor of
                       Inl err \<Rightarrow>
                         Returns (Response StatusInternalServerError
                                    [(''error'', JString ''Failed to parse notifications'')], DB)
                     | Inr ns \<Rightarrow>
                         (let unreadCount =
                                (case CountDocuments collection
                                        (matches (flt @ [(F_is_read, Eq (VBool False))])) of
                                   Inl err \<Rightarrow> 0
                                 | Inr n \<Rightarrow> n)
                          in Returns
                               (Response StatusOK
                                  [(''success'', JBool True),
                                   (''notifications'', JNotifications ns),
                                   (''count'', JInt (int (length ns))),
                                   (''unread_count'', JInt unreadCount),
                                   (''filter_applied'',
                                      JObject [(''type'', JString (Query c ''type'')),
                                               (''project_id'', JString (Query c ''project_id''))])],
                                DB))))))"

text \<open>\<^verbatim>\<open>GetProjectNotifications\<close>: the listing of one project, for any caller.\<close>

definition GetProjectNotifications ::
  "Time \<Rightarrow> Context \<Rightarrow> Database option \<Rightarrow> (Response \<times> Database option) exec" where
  "GetProjectNotifications now c DB =
     (let projectID = Param c ''id'' in
      case ObjectIDFromHex projectID of
        Inl err \<Rightarrow> Returns (Response StatusBadRequest [(''error'', JString ''Invalid project ID'')], DB)
      | Inr objID \<Rightarrow>
          (case GetNotificationsCollection DB of
             Exit \<Rightarrow> Exit
           | Returns collection \<Rightarrow>
               (case Find collection
                       (matches [(F_project_id, Eq (VObjectID objID)), (F_expires_at, Gt (VTime now))])
                       (\<lambda>d. - CreatedAt d) 20 of
                  Inl err \<Rightarrow>
                    Returns (Response StatusInternalServerError
                               [(''error'', JString ''Failed to fetch project notifications'')], DB)
                | Inr cursor \<Rightarrow>
                    (case cursor_All cursor of
                       Inl err \<Rightarrow>
                         Returns (Response StatusInternalServerError
                                    [(''error'', JString ''Failed to parse notifications'')], DB)
                     | Inr ns \<Rightarrow>
                         Returns
                           (Response StatusOK
                              [(''success'', JBool True),
                               (''project_id'', JString projectID),
                               (''notifications'', JNotifications ns),
                               (''count'', JInt (int (length ns)))],
                            DB)))))"

subsection \<open>Read state and deletion\<close>

definition MarkNotificationAsRead :: "Context \<Rightarrow> Database option \<Rightarrow> (Response \<times> Database option) exec" where
  "MarkNotificationAsRead c DB =
     (case ObjectIDFromHex (Param c ''id'') of
        Inl err \<Rightarrow>
          Returns (Response StatusBadRequest [(''error'', JString ''Invalid notification ID'')], DB)
      | Inr objID \<Rightarrow>
          (case GetNotificationsCollection DB of
             Exit \<Rightarrow> Exit
           | Returns collection \<Rightarrow>
               (case UpdateOne collection (matches [(F_id, Eq (VObjectID objID))])
                       (apply_set [(F_is_read, VBool True)]) of
                  Inl err \<Rightarrow>
                    Returns (Response StatusInternalServerError
                               [(''error'', JString ''Failed to mark notification as read'')], DB)
                | Inr (result, collection') \<Rightarrow>
                    if MatchedCount result = 0
                    then Returns (Response StatusNotFound
                                    [(''error'', JString ''Notification not found'')],
                                  store_notifications DB collection')
                    else Returns (Response StatusOK
                                    [(''success'', JBool True),
                                     (''message'', JString ''Notification marked as read'')],
                                  store_notifications DB collection'))))"

definition MarkAllNotificationsAsRead ::
  "Context \<Rightarrow> Database option \<Rightarrow> (Response \<times> Database option) exec" where
  "MarkAllNotificationsAsRead c DB =
     (let isAdmin = GetBool c ''is_admin'';
          userID = GetString c ''user_id'';
          filter0 = [(F_is_read, Eq (VBool False))]
      in case (if \<not> isAdmin \<and> userID \<noteq> []
               then (case ObjectIDFromHex userID of
                       Inl err \<Rightarrow> Inl (Response StatusBadRequest [(''error'', JString ''Invalid user ID'')])
                     | Inr userObjID \<Rightarrow> Inr (filter0 @ [(F_user_id, Eq (VObjectID userObjID))]))
               else Inr filter0) of
           Inl resp \<Rightarrow> Returns (resp, DB)
         | Inr flt \<Rightarrow>
             (case GetNotificationsCollection DB of
                Exit \<Rightarrow> Exit
              | Returns collection \<Rightarrow>
                  (case UpdateMany collection (matches flt) (apply_set [(F_is_read, VBool True)]) of
                     Inl err \<Rightarrow>
                       Returns (Response StatusInternalServerError
                                  [(''error'', JString ''Failed to mark notifications as read'')], DB)
                   | Inr (result, collection') \<Rightarrow>
                       Returns (Response StatusOK
                                  [(''success'', JBool True),
                                   (''message'', JString ''All notifications marked as read''),
                                   (''updated_count'', JInt (ModifiedCount result))],
                                store_notifications DB collection'))))"

definition DeleteNotification :: "Context \<Rightarrow> Database option \<Rightarrow> (Response \<times> Database option) exec" where
  "DeleteNotification c DB =
     (case ObjectIDFromHex (Param c ''id'') of
        Inl err \<Rightarrow>
          Returns (Response StatusBadRequest [(''error'', JString ''Invalid notification ID'')], DB)
      | Inr objID \<Rightarrow>
          (case GetNotificationsCollection DB of
             Exit \<Rightarrow> Exit
           | Returns collection \<Rightarrow>
               (case DeleteOne collection (matches [(F_id, Eq (VObjectID objID))]) of
                  Inl err \<Rightarrow>
                    Returns (Response StatusInternalServerError
                               [(''error'', JString ''Failed to delete notification'')], DB)
                | Inr (result, collection') \<Rightarrow>
                    if DeletedCount result = 0
                    then Returns (Response StatusNotFound
                                    [(''error'', JString ''Notification not found'')],
                                  store_notifications DB collection')
                    else Returns (Response StatusOK
                                    [(''success'', JBool True),
                                     (''message'', JString ''Notification deleted successfully'')],
                                  store_notifications DB collection'))))"

subsection \<open>Removing expired notifications\<close>

text \<open>
  \<^verbatim>\<open>CleanupExpiredNotifications\<close> returns the driver's error, if any. The count the
  driver reports is printed when positive; the model returns it beside the error
  (\<open>None\<close> when the deletion failed) so that it can be observed.
\<close>

definition CleanupExpiredNotifications ::
  "Time \<Rightarrow> Database option \<Rightarrow> (store_error option \<times> int option \<times> Database option) exec" where
  "CleanupExpiredNotifications now DB =
     (case GetNotificationsCollection DB of
        Exit \<Rightarrow> Exit
      | Returns collection \<Rightarrow>
          (case DeleteMany collection (matches [(F_expires_at, Lt (VTime now))]) of
             Inl err \<Rightarrow> Returns (Some err, None, DB)
           | Inr (result, collection') \<Rightarrow>
               Returns (None, Some (DeletedCount result), store_notifications DB collection')))"

datatype sweep_error = NotInitialized

text \<open>
  \<^verbatim>\<open>CleanupExpiredData\<close>, the sweep of the maintenance task: expired notifications, then
  chat messages and usage logs older than the two instants \<open>sixMonthsAgo\<close> and
  \<open>threeMonthsAgo\<close> (computed by \<^verbatim>\<open>AddDate\<close> from the clock). A step that fails is
  logged and the sweep goes on. The result is the error returned, the counts logged by
  the three steps, and the database.
\<close>

definition CleanupExpiredData ::
  "Time \<Rightarrow> Time \<Rightarrow> Time \<Rightarrow> Database option \<Rightarrow>
     sweep_error option \<times> int option list \<times> Database option" where
  "CleanupExpiredData now sixMonthsAgo threeMonthsAgo DB =
     (case DB of
        None \<Rightarrow> (Some NotInitialized, [], DB)
      | Some db \<Rightarrow>
          (let (log1, db1) =
                 (case DeleteMany (notifications db) (matches [(F_expires_at, Lt (VTime now))]) of
                    Inl err \<Rightarrow> (None, db)
                  | Inr (result, col) \<Rightarrow> (Some (DeletedCount result), db\<lparr>notifications := col\<rparr>));
               (log2, db2) =
                 (case DeleteMany (chat_messages db1) (\<lambda>t. t < sixMonthsAgo) of
                    Inl err \<Rightarrow> (None, db1)
                  | Inr (result, col) \<Rightarrow> (Some (DeletedCount result), db1\<lparr>chat_messages := col\<rparr>));
               (log3, db3) =
                 (case DeleteMany (gemini_usage_logs db2) (\<lambda>t. t < threeMonthsAgo) of
                    Inl err \<Rightarrow> (None, db2)
                  | Inr (result, col) \<Rightarrow> (Some (DeletedCount result), db2\<lparr>gemini_usage_logs := col\<rparr>))
           in (None, [log1, log2, log3], Some db3)))"

subsection \<open>Reading the expiry setting\<close>

text \<open>
  \<^verbatim>\<open>parseDuration\<close>, \<^verbatim>\<open>parseInt\<close> and \<^verbatim>\<open>parseBool\<close> of \<^verbatim>\<open>config/notifications.go\<close>. The
  environment and the parsers of the standard library are arguments: \<open>getenv\<close> reads a
  variable (empty when unset), a parser returns \<open>None\<close> for a string it rejects. A
  default that does not parse leaves the zero value.
\<close>

definition parseDuration ::
  "(string \<Rightarrow> string) \<Rightarrow> (string \<Rightarrow> Duration option) \<Rightarrow> string \<Rightarrow> string \<Rightarrow> Duration" where
  "parseDuration getenv ParseDuration key defaultValue =
     (let v = getenv key;
          v' = (if v = [] then defaultValue else v)
      in case ParseDuration v' of
           Some duration \<Rightarrow> duration
         | None \<Rightarrow> (case ParseDuration defaultValue of Some duration \<Rightarrow> duration | None \<Rightarrow> 0))"

definition parseInt :: "(string \<Rightarrow> string) \<Rightarrow> (string \<Rightarrow> int option) \<Rightarrow> string \<Rightarrow> int \<Rightarrow> int" where
  "parseInt getenv Atoi key defaultValue =
     (let v = getenv key in
      if v = [] then defaultValue
      else (case Atoi v of None \<Rightarrow> defaultValue | Some intValue \<Rightarrow> intValue))"

definition parseBool :: "(string \<Rightarrow> string) \<Rightarrow> (string \<Rightarrow> bool option) \<Rightarrow> string \<Rightarrow> bool \<Rightarrow> bool" where
  "parseBool getenv ParseBool key defaultValue =
     (let v = getenv key in
      if v = [] then defaultValue
      else (case ParseBool v of None \<Rightarrow> defaultValue | Some boolValue \<Rightarrow> boolValue))"

text \<open>\<^verbatim>\<open>InitNotificationConfig\<close>: the value it stores in \<^verbatim>\<open>NotificationSettings\<close>.\<close>

definition InitNotificationConfig ::
  "(string \<Rightarrow> string) \<Rightarrow> (string \<Rightarrow> Duration option) \<Rightarrow> (string \<Rightarrow> int option) \<Rightarrow>
   (string \<Rightarrow> bool option) \<Rightarrow> NotificationConfig option" where
  "InitNotificationConfig getenv ParseDuration Atoi ParseBool =
     Some \<lparr>CleanupInterval = parseDuration getenv ParseDuration ''NOTIFICATION_CLEANUP_INTERVAL'' ''24h'',
           DefaultExpiry = parseDuration getenv ParseDuration ''NOTIFICATION_DEFAULT_EXPIRY'' ''24h'',
           MaxPerUser = parseInt getenv Atoi ''MAX_NOTIFICATIONS_PER_USER'' 100,
           EnableCleanup = parseBool getenv ParseBool ''ENABLE_NOTIFICATION_CLEANUP'' True,
           RateLimitPerMinute = parseInt getenv Atoi ''NOTIFICATION_RATE_LIMIT_PER_MINUTE'' 10,
           BurstLimit = parseInt getenv Atoi ''NOTIFICATION_BURST_LIMIT'' 20,
           SMTPHost = getenv ''SMTP_HOST'',
           SMTPPort = parseInt getenv Atoi ''SMTP_PORT'' 587,
           SMTPUsername = getenv ''SMTP_USERNAME'',
           SMTPPassword = getenv ''SMTP_PASSWORD'',
           SMTPFromEmail = getenv ''SMTP_FROM_EMAIL'',
           SMTPFromName = getenv ''SMTP_FROM_NAME'',
           WebhookSecret = getenv ''WEBHOOK_SECRET'',
           SlackWebhookURL = getenv ''SLACK_WEBHOOK_URL'',
           DiscordWebhookURL = getenv ''DISCORD_WEBHOOK_URL''\<rparr>"

subsection \<open>Example data\<close>

text \<open>
  A small store used to run the operations on concrete inputs: three notifications of
  two projects, one of user \<open>0x15\<close>, one of user \<open>0x16\<close> and one system notification
  without owner.
\<close>

definition oid :: "nat \<Rightarrow> ObjectID" where
  "oid k = [0, 0, 0, 0, 0, 0, 0, 0, 0, 0, 0, word_of_nat k]"

definition note1 :: Notification where
  "note1 = \<lparr>ID = oid 1, ProjectID = oid 10, UserID = oid 21, Type = ''info'',
            Title = ''first'', Message = ''one'', IsRead = False,
            CreatedAt = 100, ExpiresAt = 200, Metadata = []\<rparr>"

definition note2 :: Notification where
  "note2 = \<lparr>ID = oid 2, ProjectID = oid 10, UserID = oid 22, Type = ''warning'',
            Title = ''second'', Message = ''two'', IsRead = True,
            CreatedAt = 150, ExpiresAt = 300, Metadata = []\<rparr>"

definition note3 :: Notification where
  "note3 = \<lparr>ID = oid 3, ProjectID = oid 11, UserID = NilObjectID, Type = ''limit_expired'',
            Title = ''third'', Message = ''three'', IsRead = False,
            CreatedAt = 120, ExpiresAt = 400, Metadata = [(''severity'', MString ''warning'')]\<rparr>"

definition example_notes :: "Notification list \<Rightarrow> Database" where
  "example_notes ns =
     \<lparr>notifications = \<lparr>docs = ns, unavailable = False\<rparr>,
      chat_messages = \<lparr>docs = [50, 500], unavailable = False\<rparr>,
      gemini_usage_logs = \<lparr>docs = [60, 600], unavailable = False\<rparr>\<rparr>"

definition example_db :: Database where
  "example_db = example_notes [note1, note2, note3]"

text \<open>
  A request of a caller: whether the middleware marked it as administrator, its user
  identifier (empty: none set), and the path parameter \<^verbatim>\<open>id\<close>.
\<close>

definition request :: "bool \<Rightarrow> string \<Rightarrow> string \<Rightarrow> Context" where
  "request admin uid ident =
     \<lparr>Keys = (if admin then [(''is_admin'', KBool True)] else []) @
              (if uid = [] then [] else [(''user_id'', KString uid)]),
      Params = [(''id'', ident)],
      QueryArgs = []\<rparr>"

text \<open>
  An environment that sets the default expiry to \<^verbatim>\<open>0s\<close> and nothing else, and what
  \<^verbatim>\<open>time.ParseDuration\<close> returns on the two strings read under it.
\<close>

definition example_getenv :: "string \<Rightarrow> string" where
  "example_getenv k = (if k = ''NOTIFICATION_DEFAULT_EXPIRY'' then ''0s'' else [])"

definition example_ParseDuration :: "string \<Rightarrow> Duration option" where
  "example_ParseDuration s =
     (if s = ''0s'' then Some 0 else if s = ''24h'' then Some (24 * Hour) else None)"

text \<open>A clock that advances by one nanosecond at every reading.\<close>

definition example_clock :: "nat \<Rightarrow> Time" where
  "example_clock k = 1000 + int k"

section \<open>Properties\<close>

subsection \<open>Auxiliary facts\<close>

lemma matches_expired [simp]:
  "matches [(F_expires_at, Lt (VTime now))] = (\<lambda>d. ExpiresAt d < now)"
  by (rule ext) (simp add: matches_def)

lemma matches_active [simp]:
  "matches [(F_expires_at, Gt (VTime now))] = (\<lambda>d. now < ExpiresAt d)"
  by (rule ext) (simp add: matches_def)

lemma matches_id [simp]:
  "matches [(F_id, Eq (VObjectID x))] = (\<lambda>d. ID d = x)"
  by (rule ext) (simp add: matches_def)

lemma matches_append: "matches (f @ g) d = (matches f d \<and> matches g d)"
  by (simp add: matches_def)

lemma mark_read_update [simp]: "apply_set [(F_is_read, VBool True)] = (\<lambda>d. d\<lparr>IsRead := True\<rparr>)"
  by (rule ext) (simp add: apply_set_def)

lemmas example_defs =
  example_db_def example_notes_def note1_def note2_def note3_def oid_def NilObjectID_def
  request_def

lemmas request_defs = GetBool_def GetString_def Param_def Query_def

lemmas hex_defs = ObjectIDFromHex_def fromHexChar_def

lemma GetNotifications_filter_active:
  assumes "GetNotifications_filter now c = Inr flt" "matches flt d"
  shows "now < ExpiresAt d"
  using assms
  by (auto simp: GetNotifications_filter_def Let_def matches_def split: if_splits sum.splits)

lemma GetNotifications_filter_owner:
  assumes "GetNotifications_filter now c = Inr flt"
    and "\<not> GetBool c ''is_admin''" and "GetString c ''user_id'' \<noteq> []"
  shows "\<exists>U. ObjectIDFromHex (GetString c ''user_id'') = Inr U \<and> (\<forall>d. matches flt d \<longrightarrow> UserID d = U)"
  using assms
  by (auto simp: GetNotifications_filter_def Let_def matches_def split: if_splits sum.splits)

lemma GetNotifications_filter_unscoped:
  assumes "GetBool c ''is_admin'' \<or> GetString c ''user_id'' = []"
    and "Query c ''type'' = []" and "Query c ''project_id'' = []"
  shows "GetNotifications_filter now c = Inr [(F_expires_at, Gt (VTime now))]"
  using assms
  by (auto simp: GetNotifications_filter_def Let_def)

lemma GetNotifications_filter_rejects:
  assumes "GetNotifications_filter now c = Inl r"
  shows "r = Response StatusBadRequest [(''error'', JString ''Invalid user ID'')]"
  using assms
  by (auto simp: GetNotifications_filter_def Let_def split: if_splits sum.splits)

lemma GetNotifications_listing:
  assumes "GetNotifications now c DB = Returns (r, DB')"
  shows "DB' = DB \<and>
         (notifications_of r = [] \<or>
          (\<exists>db flt. DB = Some db \<and> GetNotifications_filter now c = Inr flt \<and>
             notifications_of r =
               take 50 (sort_key (\<lambda>d. - CreatedAt d) (filter (matches flt) (docs (notifications db))))))"
  using assms
  by (auto simp: GetNotifications_def GetNotificationsCollection_def Find_def cursor_All_def
      notifications_of_def Let_def split: option.splits sum.splits if_splits
      dest!: GetNotifications_filter_rejects)

lemma matches_project [simp]:
  "matches [(F_project_id, Eq (VObjectID x)), (F_expires_at, Gt (VTime now))] =
     (\<lambda>d. ProjectID d = x \<and> now < ExpiresAt d)"
  by (rule ext) (simp add: matches_def)

lemma GetProjectNotifications_listing:
  assumes "GetProjectNotifications now c DB = Returns (r, DB')"
  shows "DB' = DB \<and>
         (notifications_of r = [] \<or>
          (\<exists>db objID. DB = Some db \<and> ObjectIDFromHex (Param c ''id'') = Inr objID \<and>
             notifications_of r =
               take 20 (sort_key (\<lambda>d. - CreatedAt d)
                 (filter (\<lambda>d. ProjectID d = objID \<and> now < ExpiresAt d) (docs (notifications db))))))"
  using assms
  by (auto simp: GetProjectNotifications_def GetNotificationsCollection_def Find_def cursor_All_def
      notifications_of_def Let_def split: option.splits sum.splits if_splits)

lemma newest_first_take_sort:
  "sorted_wrt (\<lambda>a b. CreatedAt b \<le> CreatedAt a) (take n (sort_key (\<lambda>d. - CreatedAt d) xs))"
proof -
  have "sorted (map (\<lambda>d. - CreatedAt d) (sort_key (\<lambda>d. - CreatedAt d) xs))"
    by (rule sorted_sort_key)
  then have "sorted_wrt (\<lambda>a b. CreatedAt b \<le> CreatedAt a) (sort_key (\<lambda>d. - CreatedAt d) xs)"
    by (simp add: sorted_map)
  then show ?thesis
    by (rule sorted_wrt_take)
qed

lemma in_take_sort_filter:
  "d \<in> set (take n (sort_key k (filter p xs))) \<Longrightarrow> d \<in> set xs \<and> p d"
  by (auto dest: in_set_takeD)

lemma listings_active:
  assumes "GetNotifications now c DB = Returns (r, DB')"
  shows "\<forall>d \<in> set (notifications_of r). now < ExpiresAt d"
  using GetNotifications_listing [OF assms]
  by (auto dest!: in_take_sort_filter dest: GetNotifications_filter_active)

lemma project_listing_active:
  assumes "GetProjectNotifications now c DB = Returns (r, DB')"
  shows "\<forall>d \<in> set (notifications_of r). now < ExpiresAt d"
  using GetProjectNotifications_listing [OF assms]
  by (auto dest!: in_take_sort_filter)

lemma GetNotifications_unscoped:
  assumes "GetNotifications now c (Some db) = Returns (r, DB1)"
    and "\<not> unavailable (notifications db)"
    and "GetBool c ''is_admin'' \<or> GetString c ''user_id'' = []"
    and "Query c ''type'' = []" and "Query c ''project_id'' = []"
  shows "notifications_of r =
           take 50 (sort_key (\<lambda>d. - CreatedAt d)
             (filter (\<lambda>d. now < ExpiresAt d) (docs (notifications db))))"
proof -
  have flt: "GetNotifications_filter now c = Inr [(F_expires_at, Gt (VTime now))]"
    using assms(3-5) by (rule GetNotifications_filter_unscoped)
  from assms(1,2) show ?thesis
    unfolding GetNotifications_def flt
    by (clarsimp simp: GetNotificationsCollection_def Find_def cursor_All_def Let_def notifications_of_def)
qed

lemma GetProjectNotifications_available:
  assumes "GetProjectNotifications now c (Some db) = Returns (r, DB1)"
    and "\<not> unavailable (notifications db)"
    and "ObjectIDFromHex (Param c ''id'') = Inr objID"
  shows "notifications_of r =
           take 20 (sort_key (\<lambda>d. - CreatedAt d)
             (filter (\<lambda>d. ProjectID d = objID \<and> now < ExpiresAt d) (docs (notifications db))))"
  using assms
  by (clarsimp simp: GetProjectNotifications_def GetNotificationsCollection_def Find_def cursor_All_def
      Let_def notifications_of_def)

lemma set_take_sort_filter:
  "length (filter p xs) \<le> n \<Longrightarrow> set (take n (sort_key k (filter p xs))) = {d \<in> set xs. p d}"
  by simp

lemma update_first_absent: "\<not> list_ex p xs \<Longrightarrow> update_first p u xs = xs"
  by (induction xs) auto

lemma delete_first_absent: "\<not> list_ex p xs \<Longrightarrow> delete_first p xs = xs"
  by (induction xs) auto

lemma filter_empty_iff_absent: "(filter p xs = []) = (\<not> list_ex p xs)"
  by (induction xs) auto

lemma map_ID_update_first:
  "map ID (update_first p (\<lambda>d. d\<lparr>IsRead := True\<rparr>) xs) = map ID xs"
  by (induction xs) auto

lemma update_first_twice:
  "update_first (\<lambda>d. ID d = x) (\<lambda>d. d\<lparr>IsRead := True\<rparr>)
     (update_first (\<lambda>d. ID d = x) (\<lambda>d. d\<lparr>IsRead := True\<rparr>) xs) =
   update_first (\<lambda>d. ID d = x) (\<lambda>d. d\<lparr>IsRead := True\<rparr>) xs"
  by (induction xs) auto

lemma list_ex_update_first:
  "list_ex (\<lambda>d. ID d = x) (update_first (\<lambda>d. ID d = x) (\<lambda>d. d\<lparr>IsRead := True\<rparr>) xs) =
   list_ex (\<lambda>d. ID d = x) xs"
  by (induction xs) auto

lemma update_first_marked:
  assumes "distinct (map ID xs)"
    and "d \<in> set (update_first (\<lambda>d. ID d = x) (\<lambda>d. d\<lparr>IsRead := True\<rparr>) xs)"
    and "ID d = x"
  shows "IsRead d"
  using assms(1,2)
proof (induction xs)
  case Nil
  then show ?case by simp
next
  case (Cons a xs)
  show ?case
  proof (cases "ID a = x")
    case True
    with Cons.prems(2) have "d = a\<lparr>IsRead := True\<rparr> \<or> d \<in> set xs"
      by simp
    moreover have "d \<notin> set xs"
    proof
      assume "d \<in> set xs"
      then have "ID d \<in> ID ` set xs" by (rule imageI)
      with Cons.prems(1) True assms(3) show False by simp
    qed
    ultimately show ?thesis by auto
  next
    case False
    with Cons.prems(2)
    have "d = a \<or> d \<in> set (update_first (\<lambda>d. ID d = x) (\<lambda>d. d\<lparr>IsRead := True\<rparr>) xs)"
      by simp
    moreover have "d \<noteq> a" using False assms(3) by blast
    moreover have "distinct (map ID xs)" using Cons.prems(1) by simp
    ultimately show ?thesis using Cons.IH by blast
  qed
qed

lemma update_first_others:
  "d \<in> set (update_first (\<lambda>d. ID d = x) (\<lambda>d. d\<lparr>IsRead := True\<rparr>) xs) \<Longrightarrow>
   ID d \<noteq> x \<Longrightarrow> d \<in> set xs"
  by (induction xs) (auto split: if_splits)

lemma delete_first_distinct:
  "distinct (map ID xs) \<Longrightarrow> delete_first (\<lambda>d. ID d = x) xs = filter (\<lambda>d. ID d \<noteq> x) xs"
proof (induction xs)
  case Nil
  show ?case by simp
next
  case (Cons a xs)
  show ?case
  proof (cases "ID a = x")
    case True
    with Cons.prems have "x \<notin> ID ` set xs"
      by simp
    then have "\<forall>d \<in> set xs. ID d \<noteq> x"
      by blast
    then have "filter (\<lambda>d. ID d \<noteq> x) xs = xs"
      by (rule filter_True)
    with True show ?thesis by simp
  next
    case False
    with Cons show ?thesis by simp
  qed
qed

lemma MarkNotificationAsRead_found:
  assumes "ObjectIDFromHex (Param c ''id'') = Inr objID"
    and "\<not> unavailable (notifications db)"
    and "list_ex (\<lambda>d. ID d = objID) (docs (notifications db))"
  shows "MarkNotificationAsRead c (Some db) =
           Returns (Response StatusOK
                      [(''success'', JBool True),
                       (''message'', JString ''Notification marked as read'')],
                    Some (db\<lparr>notifications := (notifications db)
                            \<lparr>docs := update_first (\<lambda>d. ID d = objID) (\<lambda>d. d\<lparr>IsRead := True\<rparr>)
                                       (docs (notifications db))\<rparr>\<rparr>))"
proof -
  from assms(3) obtain d ds where "filter (\<lambda>d. ID d = objID) (docs (notifications db)) = d # ds"
    by (cases "filter (\<lambda>d. ID d = objID) (docs (notifications db))")
       (auto simp: filter_empty_iff_absent)
  with assms(1,2) show ?thesis
    by (simp add: MarkNotificationAsRead_def GetNotificationsCollection_def UpdateOne_def
        store_notifications_def)
qed

lemma MarkNotificationAsRead_absent:
  assumes "ObjectIDFromHex (Param c ''id'') = Inr objID"
    and "\<not> unavailable (notifications db)"
    and "\<not> list_ex (\<lambda>d. ID d = objID) (docs (notifications db))"
  shows "MarkNotificationAsRead c (Some db) =
           Returns (Response StatusNotFound [(''error'', JString ''Notification not found'')], Some db)"
proof -
  from assms(3) have "filter (\<lambda>d. ID d = objID) (docs (notifications db)) = []"
    by (simp add: filter_empty_iff_absent)
  with assms(1,2) show ?thesis
    by (simp add: MarkNotificationAsRead_def GetNotificationsCollection_def UpdateOne_def
        store_notifications_def)
qed

lemma DeleteNotification_absent:
  assumes "ObjectIDFromHex (Param c ''id'') = Inr objID"
    and "\<not> unavailable (notifications db)"
    and "\<not> list_ex (\<lambda>d. ID d = objID) (docs (notifications db))"
  shows "DeleteNotification c (Some db) =
           Returns (Response StatusNotFound [(''error'', JString ''Notification not found'')], Some db)"
  using assms
  by (simp add: DeleteNotification_def GetNotificationsCollection_def DeleteOne_def
      store_notifications_def delete_first_absent)

lemma DeleteNotification_found:
  assumes "ObjectIDFromHex (Param c ''id'') = Inr objID"
    and "\<not> unavailable (notifications db)"
    and "list_ex (\<lambda>d. ID d = objID) (docs (notifications db))"
  shows "DeleteNotification c (Some db) =
           Returns (Response StatusOK
                      [(''success'', JBool True),
                       (''message'', JString ''Notification deleted successfully'')],
                    Some (db\<lparr>notifications := (notifications db)
                            \<lparr>docs := delete_first (\<lambda>d. ID d = objID) (docs (notifications db))\<rparr>\<rparr>))"
  using assms
  by (simp add: DeleteNotification_def GetNotificationsCollection_def DeleteOne_def
      store_notifications_def)

lemma malformed_id_rejected:
  assumes "ObjectIDFromHex (Param c ''id'') = Inl e"
  shows "MarkNotificationAsRead c DB =
           Returns (Response StatusBadRequest [(''error'', JString ''Invalid notification ID'')], DB)"
    and "DeleteNotification c DB =
           Returns (Response StatusBadRequest [(''error'', JString ''Invalid notification ID'')], DB)"
  using assms by (simp_all add: MarkNotificationAsRead_def DeleteNotification_def)

lemma matches_unread [simp]:
  "matches [(F_is_read, Eq (VBool False))] = (\<lambda>d. \<not> IsRead d)"
  by (rule ext) (simp add: matches_def)

lemma matches_unread_of [simp]:
  "matches [(F_is_read, Eq (VBool False)), (F_user_id, Eq (VObjectID U))] =
     (\<lambda>d. \<not> IsRead d \<and> UserID d = U)"
  by (rule ext) (simp add: matches_def)

lemma mark_unread_changes: "\<not> IsRead d \<Longrightarrow> d\<lparr>IsRead := True\<rparr> \<noteq> d"
proof
  assume "\<not> IsRead d" and "d\<lparr>IsRead := True\<rparr> = d"
  then have "IsRead (d\<lparr>IsRead := True\<rparr>) = IsRead d" by simp
  with \<open>\<not> IsRead d\<close> show False by simp
qed

lemma mark_read_unchanged: "IsRead d \<Longrightarrow> d\<lparr>IsRead := True\<rparr> = d"
  by simp

lemma modified_unread:
  "filter (\<lambda>d. \<not> IsRead d \<and> q d \<and> d\<lparr>IsRead := True\<rparr> \<noteq> d) xs =
   filter (\<lambda>d. \<not> IsRead d \<and> q d) xs"
  by (rule filter_cong) (auto simp: mark_unread_changes)

lemma mark_all_map:
  "map (\<lambda>d. if \<not> IsRead d \<and> q d then d\<lparr>IsRead := True\<rparr> else d) xs =
   map (\<lambda>d. if q d then d\<lparr>IsRead := True\<rparr> else d) xs"
  by (rule map_cong) auto

lemma MarkAll_privileged:
  assumes "\<not> unavailable (notifications db)"
    and "GetBool c ''is_admin'' \<or> GetString c ''user_id'' = []"
  shows "MarkAllNotificationsAsRead c (Some db) =
           Returns (Response StatusOK
                      [(''success'', JBool True),
                       (''message'', JString ''All notifications marked as read''),
                       (''updated_count'',
                          JInt (int (length (filter (\<lambda>d. \<not> IsRead d) (docs (notifications db))))))],
                    Some (db\<lparr>notifications := (notifications db)
                            \<lparr>docs := map (\<lambda>d. d\<lparr>IsRead := True\<rparr>) (docs (notifications db))\<rparr>\<rparr>))"
proof -
  have m: "filter (\<lambda>d. \<not> IsRead d \<and> d\<lparr>IsRead := True\<rparr> \<noteq> d) (docs (notifications db)) =
           filter (\<lambda>d. \<not> IsRead d) (docs (notifications db))"
    using modified_unread [of "\<lambda>_. True"] by simp
  have u: "map (\<lambda>d. if \<not> IsRead d then d\<lparr>IsRead := True\<rparr> else d) (docs (notifications db)) =
           map (\<lambda>d. d\<lparr>IsRead := True\<rparr>) (docs (notifications db))"
    using mark_all_map [of "\<lambda>_. True"] by simp
  from assms show ?thesis
    by (auto simp: MarkAllNotificationsAsRead_def GetNotificationsCollection_def UpdateMany_def
        store_notifications_def Let_def m u)
qed

lemma MarkAll_owner:
  assumes "\<not> unavailable (notifications db)"
    and "\<not> GetBool c ''is_admin''" and "GetString c ''user_id'' \<noteq> []"
    and "ObjectIDFromHex (GetString c ''user_id'') = Inr U"
  shows "MarkAllNotificationsAsRead c (Some db) =
           Returns (Response StatusOK
                      [(''success'', JBool True),
                       (''message'', JString ''All notifications marked as read''),
                       (''updated_count'',
                          JInt (int (length (filter (\<lambda>d. \<not> IsRead d \<and> UserID d = U)
                                               (docs (notifications db))))))],
                    Some (db\<lparr>notifications := (notifications db)
                            \<lparr>docs := map (\<lambda>d. if UserID d = U then d\<lparr>IsRead := True\<rparr> else d)
                                       (docs (notifications db))\<rparr>\<rparr>))"
  using assms
  by (simp add: MarkAllNotificationsAsRead_def GetNotificationsCollection_def UpdateMany_def
      store_notifications_def Let_def modified_unread mark_all_map)

lemma GetNotifications_filter_keys:
  assumes "GetBool c ''is_admin'' \<or> GetString c ''user_id'' = []"
  shows "GetNotifications_filter now c =
         GetNotifications_filter now (c\<lparr>Keys := [(''is_admin'', KBool True)]\<rparr>)"
  using assms
  by (auto simp: GetNotifications_filter_def GetBool_def GetString_def Query_def Let_def)

lemma MarkNotificationAsRead_status:
  assumes "MarkNotificationAsRead c DB = Returns (r, DB')"
  shows "status r \<in> {StatusOK, StatusBadRequest, StatusNotFound, StatusInternalServerError}"
  using assms
  by (auto simp: MarkNotificationAsRead_def GetNotificationsCollection_def
      split: sum.splits option.splits if_splits prod.splits)

lemma DeleteNotification_status:
  assumes "DeleteNotification c DB = Returns (r, DB')"
  shows "status r \<in> {StatusOK, StatusBadRequest, StatusNotFound, StatusInternalServerError}"
  using assms
  by (auto simp: DeleteNotification_def GetNotificationsCollection_def
      split: sum.splits option.splits if_splits prod.splits)

lemma InitNotificationConfig_expiry:
  assumes "getenv ''NOTIFICATION_DEFAULT_EXPIRY'' \<noteq> []"
    and "ParseDuration (getenv ''NOTIFICATION_DEFAULT_EXPIRY'') = Some d"
  shows "map_option DefaultExpiry (InitNotificationConfig getenv ParseDuration Atoi ParseBool) = Some d"
  using assms by (simp add: InitNotificationConfig_def parseDuration_def)

subsection \<open>The reaper\<close>

text \<open>
  Claim C7. \<^verbatim>\<open>CleanupExpiredNotifications\<close> is idempotent: on a store that answers, a run
  at the instant \<open>now\<close> returns without error, reports the number of documents with
  \<open>expires_at < now\<close> and leaves the others; a second run at the same instant on the
  resulting store returns without error, reports zero deleted documents and leaves the
  store as it is.
\<close>

theorem cleanup_twice_deletes_nothing:
  assumes "\<not> unavailable (notifications db)"
  shows "CleanupExpiredNotifications now (Some db) =
           Returns (None,
                    Some (int (length (filter (\<lambda>d. ExpiresAt d < now) (docs (notifications db))))),
                    Some (db\<lparr>notifications := (notifications db)
                             \<lparr>docs := filter (\<lambda>d. \<not> ExpiresAt d < now) (docs (notifications db))\<rparr>\<rparr>))
       \<and> CleanupExpiredNotifications now
           (Some (db\<lparr>notifications := (notifications db)
                             \<lparr>docs := filter (\<lambda>d. \<not> ExpiresAt d < now) (docs (notifications db))\<rparr>\<rparr>)) =
           Returns (None, Some 0,
                    Some (db\<lparr>notifications := (notifications db)
                             \<lparr>docs := filter (\<lambda>d. \<not> ExpiresAt d < now) (docs (notifications db))\<rparr>\<rparr>))"
  using assms
  by (simp add: CleanupExpiredNotifications_def GetNotificationsCollection_def DeleteMany_def
      store_notifications_def)

theorem cleanup_twice_deletes_nothing_witness:
  "\<not> unavailable (notifications example_db)
   \<and> CleanupExpiredNotifications 250 (Some example_db) =
       Returns (None, Some 1, Some (example_notes [note2, note3]))
   \<and> CleanupExpiredNotifications 250 (Some (example_notes [note2, note3])) =
       Returns (None, Some 0, Some (example_notes [note2, note3]))"
  using cleanup_twice_deletes_nothing [of example_db 250]
  by (simp add: example_defs)

text \<open>
  Claim C9. The reaper's deletion (\<^verbatim>\<open>CleanupExpiredNotifications\<close>) and the notification
  step of the maintenance sweep (\<^verbatim>\<open>CleanupExpiredData\<close>) do the same to the notification
  collection: run at the same instant on the same database, they leave the same
  notification collection and report the same count. When the store answers, the
  documents left are those with \<open>\<not> expires_at < now\<close> and the count is the number of
  documents with \<open>expires_at < now\<close>; when it does not, neither deletes anything.
\<close>

theorem reaper_and_sweep_delete_the_same:
  assumes "CleanupExpiredNotifications now (Some db) = Returns (e, k, DB1)"
    and "CleanupExpiredData now sixMonthsAgo threeMonthsAgo (Some db) = (e', logs, DB2)"
  shows "map_option notifications DB2 = map_option notifications DB1
       \<and> hd logs = k
       \<and> (\<not> unavailable (notifications db) \<longrightarrow>
            map_option (\<lambda>d. docs (notifications d)) DB1 =
              Some (filter (\<lambda>d. \<not> ExpiresAt d < now) (docs (notifications db)))
            \<and> k = Some (int (length (filter (\<lambda>d. ExpiresAt d < now) (docs (notifications db))))))
       \<and> (unavailable (notifications db) \<longrightarrow>
            map_option notifications DB1 = Some (notifications db) \<and> k = None)"
  using assms
  by (auto simp: CleanupExpiredNotifications_def CleanupExpiredData_def
      GetNotificationsCollection_def DeleteMany_def store_notifications_def Let_def
      split: if_splits prod.splits)


theorem reaper_and_sweep_delete_the_same_witness:
  "CleanupExpiredNotifications 250 (Some example_db) =
     Returns (None, Some 1, Some (example_notes [note2, note3]))
   \<and> CleanupExpiredData 250 55 65 (Some example_db) =
     (None, [Some 1, Some 1, Some 1],
      Some \<lparr>notifications = \<lparr>docs = [note2, note3], unavailable = False\<rparr>,
            chat_messages = \<lparr>docs = [500], unavailable = False\<rparr>,
            gemini_usage_logs = \<lparr>docs = [600], unavailable = False\<rparr>\<rparr>)
   \<and> \<not> unavailable (notifications example_db)
   \<and> notifications \<lparr>notifications = \<lparr>docs = [note2, note3], unavailable = False\<rparr>,
            chat_messages = \<lparr>docs = [500], unavailable = False\<rparr>,
            gemini_usage_logs = \<lparr>docs = [600], unavailable = False\<rparr>\<rparr>
       = notifications (example_notes [note2, note3])
   \<and> docs (notifications (example_notes [note2, note3])) =
       filter (\<lambda>d. \<not> ExpiresAt d < 250) (docs (notifications example_db))"
proof -
  have h1: "CleanupExpiredNotifications 250 (Some example_db) =
     Returns (None, Some 1, Some (example_notes [note2, note3]))"
    by (simp add: CleanupExpiredNotifications_def GetNotificationsCollection_def DeleteMany_def
        store_notifications_def example_defs)
  have h2: "CleanupExpiredData 250 55 65 (Some example_db) =
     (None, [Some 1, Some 1, Some 1],
      Some \<lparr>notifications = \<lparr>docs = [note2, note3], unavailable = False\<rparr>,
            chat_messages = \<lparr>docs = [500], unavailable = False\<rparr>,
            gemini_usage_logs = \<lparr>docs = [600], unavailable = False\<rparr>\<rparr>)"
    by (simp add: CleanupExpiredData_def DeleteMany_def example_defs)
  have u: "\<not> unavailable (notifications example_db)"
    by (simp add: example_db_def example_notes_def)
  from reaper_and_sweep_delete_the_same [OF h1 h2] u h1 h2 show ?thesis
    by simp
qed

subsection \<open>Listings\<close>

text \<open>
  Claim C8. Every notification returned by \<^verbatim>\<open>GetNotifications\<close> and by
  \<^verbatim>\<open>GetProjectNotifications\<close> is active (\<open>now < expires_at\<close>); the sequence is ordered by
  \<open>created_at\<close>, newest first; and it holds at most 50 records for the general listing,
  at most 20 for the listing of a project.
\<close>

theorem listings_active_newest_first_capped:
  assumes "GetNotifications now c DB = Returns (r, DB')"
    and "GetProjectNotifications now' c' DB = Returns (r', DB'')"
  shows "(\<forall>d \<in> set (notifications_of r). now < ExpiresAt d)
       \<and> sorted_wrt (\<lambda>a b. CreatedAt b \<le> CreatedAt a) (notifications_of r)
       \<and> length (notifications_of r) \<le> 50
       \<and> (\<forall>d \<in> set (notifications_of r'). now' < ExpiresAt d)
       \<and> sorted_wrt (\<lambda>a b. CreatedAt b \<le> CreatedAt a) (notifications_of r')
       \<and> length (notifications_of r') \<le> 20"
proof -
  from GetNotifications_listing [OF assms(1)]
  have a: "(\<forall>d \<in> set (notifications_of r). now < ExpiresAt d)
       \<and> sorted_wrt (\<lambda>a b. CreatedAt b \<le> CreatedAt a) (notifications_of r)
       \<and> length (notifications_of r) \<le> 50"
    by (auto simp: newest_first_take_sort dest!: in_take_sort_filter
        dest: GetNotifications_filter_active)
  from GetProjectNotifications_listing [OF assms(2)]
  have b: "(\<forall>d \<in> set (notifications_of r'). now' < ExpiresAt d)
       \<and> sorted_wrt (\<lambda>a b. CreatedAt b \<le> CreatedAt a) (notifications_of r')
       \<and> length (notifications_of r') \<le> 20"
    by (auto simp: newest_first_take_sort dest!: in_take_sort_filter)
  from a b show ?thesis by blast
qed

theorem listings_active_newest_first_capped_witness:
  "GetNotifications 150 (request True [] []) (Some example_db) =
     Returns (Response StatusOK
                [(''success'', JBool True),
                 (''notifications'', JNotifications [note2, note3, note1]),
                 (''count'', JInt 3),
                 (''unread_count'', JInt 2),
                 (''filter_applied'', JObject [(''type'', JString []), (''project_id'', JString [])])],
              Some example_db)
   \<and> GetProjectNotifications 150 (request False [] ''00000000000000000000000a'') (Some example_db) =
     Returns (Response StatusOK
                [(''success'', JBool True),
                 (''project_id'', JString ''00000000000000000000000a''),
                 (''notifications'', JNotifications [note2, note1]),
                 (''count'', JInt 2)],
              Some example_db)
   \<and> list_all (\<lambda>d. 150 < ExpiresAt d) [note2, note3, note1]
   \<and> sorted_wrt (\<lambda>a b. CreatedAt b \<le> CreatedAt a) [note2, note3, note1]
   \<and> length [note2, note3, note1] \<le> 50
   \<and> list_all (\<lambda>d. 150 < ExpiresAt d) [note2, note1]
   \<and> sorted_wrt (\<lambda>a b. CreatedAt b \<le> CreatedAt a) [note2, note1]
   \<and> length [note2, note1] \<le> 20"
proof -
  have h1: "GetNotifications 150 (request True [] []) (Some example_db) =
     Returns (Response StatusOK
                [(''success'', JBool True),
                 (''notifications'', JNotifications [note2, note3, note1]),
                 (''count'', JInt 3),
                 (''unread_count'', JInt 2),
                 (''filter_applied'', JObject [(''type'', JString []), (''project_id'', JString [])])],
              Some example_db)"
    by (simp add: GetNotifications_def GetNotifications_filter_def GetNotificationsCollection_def
        Find_def CountDocuments_def cursor_All_def matches_def request_defs example_defs)
  have h2: "GetProjectNotifications 150 (request False [] ''00000000000000000000000a'') (Some example_db) =
     Returns (Response StatusOK
                [(''success'', JBool True),
                 (''project_id'', JString ''00000000000000000000000a''),
                 (''notifications'', JNotifications [note2, note1]),
                 (''count'', JInt 2)],
              Some example_db)"
    by (simp add: GetProjectNotifications_def GetNotificationsCollection_def
        Find_def cursor_All_def hex_defs request_defs example_defs)
  from listings_active_newest_first_capped [OF h1 h2] h1 h2 show ?thesis
    by (simp add: notifications_of_def)
qed

text \<open>
  Claim C2. Listing and reaper compare \<open>expires_at\<close> with the same instant by opposite
  strict comparisons. Every record a listing returns has \<open>now < expires_at\<close>; the reaper
  keeps exactly the records with \<open>\<not> expires_at < now\<close>. So a stored record with
  \<open>expires_at = now\<close> is in neither listing and is still stored after the reaper has run.
  Conversely the expiry condition is the only one a listing adds by itself: when the
  caller is not restricted to an owner, gives no type and no project, and at most 50
  records are active, the general listing returns exactly the stored records with
  \<open>now < expires_at\<close>; and the listing of a project with at most 20 active records
  returns exactly the records of that project with \<open>now < expires_at\<close>.
\<close>

theorem expiry_boundary_listed_nowhere_reaped_not_yet:
  assumes l1: "GetNotifications now c (Some db) = Returns (r, DB1)"
    and l2: "GetProjectNotifications now c' (Some db) = Returns (r', DB2)"
    and cl: "CleanupExpiredNotifications now (Some db) = Returns (None, k, Some db')"
  shows "(\<forall>d \<in> set (notifications_of r). now < ExpiresAt d)
       \<and> (\<forall>d \<in> set (notifications_of r'). now < ExpiresAt d)
       \<and> docs (notifications db') = filter (\<lambda>d. \<not> ExpiresAt d < now) (docs (notifications db))
       \<and> (\<forall>d \<in> set (docs (notifications db)). ExpiresAt d = now \<longrightarrow>
            d \<notin> set (notifications_of r) \<and> d \<notin> set (notifications_of r')
            \<and> d \<in> set (docs (notifications db')))
       \<and> ((GetBool c ''is_admin'' \<or> GetString c ''user_id'' = []) \<and> Query c ''type'' = []
            \<and> Query c ''project_id'' = []
            \<and> length (filter (\<lambda>d. now < ExpiresAt d) (docs (notifications db))) \<le> 50 \<longrightarrow>
          set (notifications_of r) = {d \<in> set (docs (notifications db)). now < ExpiresAt d})
       \<and> (\<forall>objID. ObjectIDFromHex (Param c' ''id'') = Inr objID
            \<and> length (filter (\<lambda>d. ProjectID d = objID \<and> now < ExpiresAt d) (docs (notifications db))) \<le> 20 \<longrightarrow>
          set (notifications_of r') =
            {d \<in> set (docs (notifications db)). ProjectID d = objID \<and> now < ExpiresAt d})"
proof -
  from cl have up: "\<not> unavailable (notifications db)"
    and kept: "docs (notifications db') = filter (\<lambda>d. \<not> ExpiresAt d < now) (docs (notifications db))"
    by (auto simp: CleanupExpiredNotifications_def GetNotificationsCollection_def DeleteMany_def
        store_notifications_def split: if_splits)
  from listings_active [OF l1] have a: "\<forall>d \<in> set (notifications_of r). now < ExpiresAt d" .
  from project_listing_active [OF l2] have b: "\<forall>d \<in> set (notifications_of r'). now < ExpiresAt d" .
  have c: "\<forall>d \<in> set (docs (notifications db)). ExpiresAt d = now \<longrightarrow>
            d \<notin> set (notifications_of r) \<and> d \<notin> set (notifications_of r')
            \<and> d \<in> set (docs (notifications db'))"
  proof (intro ballI impI conjI)
    fix d assume d: "d \<in> set (docs (notifications db))" and eq: "ExpiresAt d = now"
    show "d \<notin> set (notifications_of r)" using a eq by fastforce
    show "d \<notin> set (notifications_of r')" using b eq by fastforce
    show "d \<in> set (docs (notifications db'))" using d eq by (simp add: kept)
  qed
  have e: "(GetBool c ''is_admin'' \<or> GetString c ''user_id'' = []) \<and> Query c ''type'' = []
            \<and> Query c ''project_id'' = []
            \<and> length (filter (\<lambda>d. now < ExpiresAt d) (docs (notifications db))) \<le> 50 \<longrightarrow>
          set (notifications_of r) = {d \<in> set (docs (notifications db)). now < ExpiresAt d}"
  proof (intro impI)
    assume h: "(GetBool c ''is_admin'' \<or> GetString c ''user_id'' = []) \<and> Query c ''type'' = []
            \<and> Query c ''project_id'' = []
            \<and> length (filter (\<lambda>d. now < ExpiresAt d) (docs (notifications db))) \<le> 50"
    then have "notifications_of r =
           take 50 (sort_key (\<lambda>d. - CreatedAt d)
             (filter (\<lambda>d. now < ExpiresAt d) (docs (notifications db))))"
      using GetNotifications_unscoped [OF l1 up] by blast
    with h show "set (notifications_of r) = {d \<in> set (docs (notifications db)). now < ExpiresAt d}"
      by (simp only: set_take_sort_filter)
  qed
  have f: "\<forall>objID. ObjectIDFromHex (Param c' ''id'') = Inr objID
            \<and> length (filter (\<lambda>d. ProjectID d = objID \<and> now < ExpiresAt d) (docs (notifications db))) \<le> 20 \<longrightarrow>
          set (notifications_of r') =
            {d \<in> set (docs (notifications db)). ProjectID d = objID \<and> now < ExpiresAt d}"
  proof (intro allI impI)
    fix objID
    assume h: "ObjectIDFromHex (Param c' ''id'') = Inr objID
            \<and> length (filter (\<lambda>d. ProjectID d = objID \<and> now < ExpiresAt d) (docs (notifications db))) \<le> 20"
    then have "notifications_of r' =
           take 20 (sort_key (\<lambda>d. - CreatedAt d)
             (filter (\<lambda>d. ProjectID d = objID \<and> now < ExpiresAt d) (docs (notifications db))))"
      using GetProjectNotifications_available [OF l2 up] by blast
    with h show "set (notifications_of r') =
            {d \<in> set (docs (notifications db)). ProjectID d = objID \<and> now < ExpiresAt d}"
      by (simp only: set_take_sort_filter)
  qed
  show ?thesis
    by (intro conjI) (rule a, rule b, rule kept, rule c, rule e, rule f)
qed

theorem expiry_boundary_listed_nowhere_reaped_not_yet_witness:
  "GetNotifications 300 (request True [] []) (Some example_db) =
     Returns (Response StatusOK
                [(''success'', JBool True),
                 (''notifications'', JNotifications [note3]),
                 (''count'', JInt 1),
                 (''unread_count'', JInt 1),
                 (''filter_applied'', JObject [(''type'', JString []), (''project_id'', JString [])])],
              Some example_db)
   \<and> GetProjectNotifications 300 (request False [] ''00000000000000000000000a'') (Some example_db) =
     Returns (Response StatusOK
                [(''success'', JBool True),
                 (''project_id'', JString ''00000000000000000000000a''),
                 (''notifications'', JNotifications []),
                 (''count'', JInt 0)],
              Some example_db)
   \<and> CleanupExpiredNotifications 300 (Some example_db) =
       Returns (None, Some 1, Some (example_notes [note2, note3]))
   \<and> ExpiresAt note2 = 300
   \<and> note2 \<in> set (docs (notifications example_db))
   \<and> note2 \<notin> set [note3]
   \<and> note2 \<in> set (docs (notifications (example_notes [note2, note3])))
   \<and> set [note3] = {d \<in> set (docs (notifications example_db)). 300 < ExpiresAt d}"
proof -
  let ?R1 = "Response StatusOK
                [(''success'', JBool True),
                 (''notifications'', JNotifications [note3]),
                 (''count'', JInt 1),
                 (''unread_count'', JInt 1),
                 (''filter_applied'', JObject [(''type'', JString []), (''project_id'', JString [])])]"
  let ?R2 = "Response StatusOK
                [(''success'', JBool True),
                 (''project_id'', JString ''00000000000000000000000a''),
                 (''notifications'', JNotifications []),
                 (''count'', JInt 0)]"
  have h1: "GetNotifications 300 (request True [] []) (Some example_db) =
     Returns (?R1, Some example_db)"
    by (simp add: GetNotifications_def GetNotifications_filter_def GetNotificationsCollection_def
        Find_def CountDocuments_def cursor_All_def matches_def request_defs example_defs)
  have h2: "GetProjectNotifications 300 (request False [] ''00000000000000000000000a'') (Some example_db) =
     Returns (?R2, Some example_db)"
    by (simp add: GetProjectNotifications_def GetNotificationsCollection_def
        Find_def cursor_All_def hex_defs request_defs example_defs)
  have h3: "CleanupExpiredNotifications 300 (Some example_db) =
       Returns (None, Some 1, Some (example_notes [note2, note3]))"
    by (simp add: CleanupExpiredNotifications_def GetNotificationsCollection_def DeleteMany_def
        store_notifications_def example_defs)
  have q: "GetBool (request True [] []) ''is_admin''" "Query (request True [] []) ''type'' = []"
    "Query (request True [] []) ''project_id'' = []"
    by (simp_all add: request_defs request_def)
  have n: "length (filter (\<lambda>d. 300 < ExpiresAt d) (docs (notifications example_db))) \<le> 50"
    by (simp add: example_defs)
  have m: "note2 \<in> set (docs (notifications example_db))" "ExpiresAt note2 = 300"
    by (simp_all add: example_db_def example_notes_def note2_def)
  note T = expiry_boundary_listed_nowhere_reaped_not_yet [OF h1 h2 h3]
  have c: "note2 \<notin> set (notifications_of ?R1)
      \<and> note2 \<notin> set (notifications_of ?R2)
      \<and> note2 \<in> set (docs (notifications (example_notes [note2, note3])))"
    using T [THEN conjunct2, THEN conjunct2, THEN conjunct2, THEN conjunct1] m
    by blast
  have e: "set (notifications_of ?R1) = {d \<in> set (docs (notifications example_db)). 300 < ExpiresAt d}"
    using T [THEN conjunct2, THEN conjunct2, THEN conjunct2, THEN conjunct2, THEN conjunct1] q n
    by blast
  have r: "notifications_of ?R1 = [note3]"
    by (simp add: notifications_of_def)
  from c e show ?thesis
    unfolding r using h1 h2 h3 m by simp
qed

subsection \<open>Read state and deletion by identifier\<close>

text \<open>
  Claim C5. \<^verbatim>\<open>MarkNotificationAsRead\<close> is idempotent. When the identifier parses, the
  store answers and holds a record with that identifier (identifiers are unique in the
  collection), the call succeeds; called again on the resulting store it succeeds again
  and changes nothing. After either call the record with that identifier is read, and no
  other record has changed.
\<close>

theorem mark_read_idempotent:
  assumes "ObjectIDFromHex (Param c ''id'') = Inr objID"
    and "\<not> unavailable (notifications db)"
    and "list_ex (\<lambda>d. ID d = objID) (docs (notifications db))"
    and "distinct (map ID (docs (notifications db)))"
  shows "let db1 = db\<lparr>notifications := (notifications db)
                      \<lparr>docs := update_first (\<lambda>d. ID d = objID) (\<lambda>d. d\<lparr>IsRead := True\<rparr>)
                                 (docs (notifications db))\<rparr>\<rparr>
         in
           MarkNotificationAsRead c (Some db) =
             Returns (Response StatusOK
                        [(''success'', JBool True),
                         (''message'', JString ''Notification marked as read'')], Some db1)
         \<and> MarkNotificationAsRead c (Some db1) =
             Returns (Response StatusOK
                        [(''success'', JBool True),
                         (''message'', JString ''Notification marked as read'')], Some db1)
         \<and> list_ex (\<lambda>d. ID d = objID) (docs (notifications db1))
         \<and> (\<forall>d \<in> set (docs (notifications db1)). ID d = objID \<longrightarrow> IsRead d)
         \<and> (\<forall>d \<in> set (docs (notifications db1)). ID d \<noteq> objID \<longrightarrow> d \<in> set (docs (notifications db)))
         \<and> map ID (docs (notifications db1)) = map ID (docs (notifications db))"
proof -
  let ?docs1 = "update_first (\<lambda>d. ID d = objID) (\<lambda>d. d\<lparr>IsRead := True\<rparr>) (docs (notifications db))"
  let ?db1 = "db\<lparr>notifications := (notifications db)\<lparr>docs := ?docs1\<rparr>\<rparr>"
  have first: "MarkNotificationAsRead c (Some db) =
             Returns (Response StatusOK
                        [(''success'', JBool True),
                         (''message'', JString ''Notification marked as read'')], Some ?db1)"
    using assms(1-3) by (rule MarkNotificationAsRead_found)
  have ex1: "list_ex (\<lambda>d. ID d = objID) (docs (notifications ?db1))"
    using assms(3) by (simp add: list_ex_update_first)
  have up1: "\<not> unavailable (notifications ?db1)"
    using assms(2) by simp
  have second: "MarkNotificationAsRead c (Some ?db1) =
             Returns (Response StatusOK
                        [(''success'', JBool True),
                         (''message'', JString ''Notification marked as read'')], Some ?db1)"
    using MarkNotificationAsRead_found [OF assms(1) up1 ex1]
    by (simp add: update_first_twice)
  have marked: "\<forall>d \<in> set (docs (notifications ?db1)). ID d = objID \<longrightarrow> IsRead d"
  proof (intro ballI impI)
    fix d assume "d \<in> set (docs (notifications ?db1))" and b: "ID d = objID"
    then have "d \<in> set ?docs1" by simp
    from update_first_marked [OF assms(4) this b] show "IsRead d" .
  qed
  have others: "\<forall>d \<in> set (docs (notifications ?db1)). ID d \<noteq> objID \<longrightarrow> d \<in> set (docs (notifications db))"
  proof (intro ballI impI)
    fix d assume "d \<in> set (docs (notifications ?db1))" and b: "ID d \<noteq> objID"
    then have "d \<in> set ?docs1" by simp
    from update_first_others [OF this b] show "d \<in> set (docs (notifications db))" .
  qed
  have ids: "map ID (docs (notifications ?db1)) = map ID (docs (notifications db))"
    by (simp add: map_ID_update_first)
  show ?thesis
    unfolding Let_def
    by (intro conjI) (rule first, rule second, rule ex1, rule marked, rule others, rule ids)
qed

theorem mark_read_idempotent_witness:
  "ObjectIDFromHex (Param (request False [] ''000000000000000000000001'') ''id'') = Inr (oid 1)
   \<and> \<not> unavailable (notifications example_db)
   \<and> list_ex (\<lambda>d. ID d = oid 1) (docs (notifications example_db))
   \<and> distinct (map ID (docs (notifications example_db)))
   \<and> MarkNotificationAsRead (request False [] ''000000000000000000000001'') (Some example_db) =
       Returns (Response StatusOK
                  [(''success'', JBool True), (''message'', JString ''Notification marked as read'')],
                Some (example_notes [note1\<lparr>IsRead := True\<rparr>, note2, note3]))
   \<and> MarkNotificationAsRead (request False [] ''000000000000000000000001'')
         (Some (example_notes [note1\<lparr>IsRead := True\<rparr>, note2, note3])) =
       Returns (Response StatusOK
                  [(''success'', JBool True), (''message'', JString ''Notification marked as read'')],
                Some (example_notes [note1\<lparr>IsRead := True\<rparr>, note2, note3]))
   \<and> IsRead (note1\<lparr>IsRead := True\<rparr>)"
proof -
  have h1: "ObjectIDFromHex (Param (request False [] ''000000000000000000000001'') ''id'') = Inr (oid 1)"
    by (simp add: hex_defs request_defs request_def oid_def)
  have h2: "\<not> unavailable (notifications example_db)"
    by (simp add: example_db_def example_notes_def)
  have h3: "list_ex (\<lambda>d. ID d = oid 1) (docs (notifications example_db))"
    by (simp add: example_db_def example_notes_def note1_def)
  have h4: "distinct (map ID (docs (notifications example_db)))"
    by (simp add: example_defs)
  have d1: "example_db\<lparr>notifications := (notifications example_db)
              \<lparr>docs := update_first (\<lambda>d. ID d = oid 1) (\<lambda>d. d\<lparr>IsRead := True\<rparr>)
                         (docs (notifications example_db))\<rparr>\<rparr> =
            example_notes [note1\<lparr>IsRead := True\<rparr>, note2, note3]"
    by (simp add: example_defs)
  from mark_read_idempotent [OF h1 h2 h3 h4] h1 h2 h3 h4 show ?thesis
    unfolding Let_def d1 by simp
qed

text \<open>
  Claim C6. For \<^verbatim>\<open>MarkNotificationAsRead\<close> and \<^verbatim>\<open>DeleteNotification\<close>: an identifier that
  does not parse is answered with status 400 whatever the database is, also when it is
  not initialised or does not answer, and the database is left as it is: the store is not
  reached. An identifier that parses and is bound to no record is answered with status
  404, on a store that answers. \<^verbatim>\<open>DeleteNotification\<close> on an identifier bound to a record
  succeeds and leaves the store without any record of that identifier, so that a later
  deletion or read mark of the same identifier is answered with status 404.
\<close>

theorem malformed_absent_and_deleted_identifiers:
  "(ObjectIDFromHex (Param c ''id'') = Inl e \<longrightarrow>
      MarkNotificationAsRead c DB =
        Returns (Response StatusBadRequest [(''error'', JString ''Invalid notification ID'')], DB)
    \<and> DeleteNotification c DB =
        Returns (Response StatusBadRequest [(''error'', JString ''Invalid notification ID'')], DB))
 \<and> (ObjectIDFromHex (Param c ''id'') = Inr objID \<and> \<not> unavailable (notifications db)
      \<and> \<not> list_ex (\<lambda>d. ID d = objID) (docs (notifications db)) \<longrightarrow>
      MarkNotificationAsRead c (Some db) =
        Returns (Response StatusNotFound [(''error'', JString ''Notification not found'')], Some db)
    \<and> DeleteNotification c (Some db) =
        Returns (Response StatusNotFound [(''error'', JString ''Notification not found'')], Some db))
 \<and> (ObjectIDFromHex (Param c ''id'') = Inr objID \<and> \<not> unavailable (notifications db)
      \<and> list_ex (\<lambda>d. ID d = objID) (docs (notifications db))
      \<and> distinct (map ID (docs (notifications db))) \<longrightarrow>
      (let db' = db\<lparr>notifications := (notifications db)
                     \<lparr>docs := filter (\<lambda>d. ID d \<noteq> objID) (docs (notifications db))\<rparr>\<rparr>
       in DeleteNotification c (Some db) =
            Returns (Response StatusOK
                       [(''success'', JBool True),
                        (''message'', JString ''Notification deleted successfully'')], Some db')
        \<and> \<not> list_ex (\<lambda>d. ID d = objID) (docs (notifications db'))
        \<and> DeleteNotification c (Some db') =
            Returns (Response StatusNotFound [(''error'', JString ''Notification not found'')], Some db')
        \<and> MarkNotificationAsRead c (Some db') =
            Returns (Response StatusNotFound [(''error'', JString ''Notification not found'')], Some db')))"
proof (intro conjI impI)
  assume "ObjectIDFromHex (Param c ''id'') = Inl e"
  then show "MarkNotificationAsRead c DB =
        Returns (Response StatusBadRequest [(''error'', JString ''Invalid notification ID'')], DB)"
    and "DeleteNotification c DB =
        Returns (Response StatusBadRequest [(''error'', JString ''Invalid notification ID'')], DB)"
    by (rule malformed_id_rejected)+
next
  assume h: "ObjectIDFromHex (Param c ''id'') = Inr objID \<and> \<not> unavailable (notifications db)
      \<and> \<not> list_ex (\<lambda>d. ID d = objID) (docs (notifications db))"
  then show "MarkNotificationAsRead c (Some db) =
        Returns (Response StatusNotFound [(''error'', JString ''Notification not found'')], Some db)"
    using MarkNotificationAsRead_absent by blast
  from h show "DeleteNotification c (Some db) =
        Returns (Response StatusNotFound [(''error'', JString ''Notification not found'')], Some db)"
    using DeleteNotification_absent by blast
next
  let ?db' = "db\<lparr>notifications := (notifications db)
                     \<lparr>docs := filter (\<lambda>d. ID d \<noteq> objID) (docs (notifications db))\<rparr>\<rparr>"
  assume h: "ObjectIDFromHex (Param c ''id'') = Inr objID \<and> \<not> unavailable (notifications db)
      \<and> list_ex (\<lambda>d. ID d = objID) (docs (notifications db))
      \<and> distinct (map ID (docs (notifications db)))"
  then have p: "ObjectIDFromHex (Param c ''id'') = Inr objID"
    and u: "\<not> unavailable (notifications db)"
    and ex: "list_ex (\<lambda>d. ID d = objID) (docs (notifications db))"
    and di: "distinct (map ID (docs (notifications db)))"
    by simp_all
  have del: "DeleteNotification c (Some db) =
            Returns (Response StatusOK
                       [(''success'', JBool True),
                        (''message'', JString ''Notification deleted successfully'')], Some ?db')"
    using DeleteNotification_found [OF p u ex] by (simp add: delete_first_distinct [OF di])
  have gone: "\<not> list_ex (\<lambda>d. ID d = objID) (docs (notifications ?db'))"
    by (simp add: list_ex_iff)
  have u': "\<not> unavailable (notifications ?db')"
    using u by simp
  have again: "DeleteNotification c (Some ?db') =
            Returns (Response StatusNotFound [(''error'', JString ''Notification not found'')], Some ?db')"
    using p u' gone by (rule DeleteNotification_absent)
  have mark: "MarkNotificationAsRead c (Some ?db') =
            Returns (Response StatusNotFound [(''error'', JString ''Notification not found'')], Some ?db')"
    using p u' gone by (rule MarkNotificationAsRead_absent)
  show "let db' = ?db'
       in DeleteNotification c (Some db) =
            Returns (Response StatusOK
                       [(''success'', JBool True),
                        (''message'', JString ''Notification deleted successfully'')], Some db')
        \<and> \<not> list_ex (\<lambda>d. ID d = objID) (docs (notifications db'))
        \<and> DeleteNotification c (Some db') =
            Returns (Response StatusNotFound [(''error'', JString ''Notification not found'')], Some db')
        \<and> MarkNotificationAsRead c (Some db') =
            Returns (Response StatusNotFound [(''error'', JString ''Notification not found'')], Some db')"
    unfolding Let_def
    by (intro conjI) (rule del, rule gone, rule again, rule mark)
qed

theorem malformed_absent_and_deleted_identifiers_witness:
  "ObjectIDFromHex (Param (request False [] ''abc'') ''id'') = Inl ErrInvalidHex
   \<and> MarkNotificationAsRead (request False [] ''abc'') None =
       Returns (Response StatusBadRequest [(''error'', JString ''Invalid notification ID'')], None)
   \<and> DeleteNotification (request False [] ''abc'') None =
       Returns (Response StatusBadRequest [(''error'', JString ''Invalid notification ID'')], None)
   \<and> ObjectIDFromHex (Param (request False [] ''000000000000000000000009'') ''id'') = Inr (oid 9)
   \<and> \<not> unavailable (notifications example_db)
   \<and> \<not> list_ex (\<lambda>d. ID d = oid 9) (docs (notifications example_db))
   \<and> MarkNotificationAsRead (request False [] ''000000000000000000000009'') (Some example_db) =
       Returns (Response StatusNotFound [(''error'', JString ''Notification not found'')],
                Some example_db)
   \<and> DeleteNotification (request False [] ''000000000000000000000009'') (Some example_db) =
       Returns (Response StatusNotFound [(''error'', JString ''Notification not found'')],
                Some example_db)
   \<and> ObjectIDFromHex (Param (request False [] ''000000000000000000000001'') ''id'') = Inr (oid 1)
   \<and> list_ex (\<lambda>d. ID d = oid 1) (docs (notifications example_db))
   \<and> distinct (map ID (docs (notifications example_db)))
   \<and> DeleteNotification (request False [] ''000000000000000000000001'') (Some example_db) =
       Returns (Response StatusOK
                  [(''success'', JBool True),
                   (''message'', JString ''Notification deleted successfully'')],
                Some (example_notes [note2, note3]))
   \<and> DeleteNotification (request False [] ''000000000000000000000001'')
         (Some (example_notes [note2, note3])) =
       Returns (Response StatusNotFound [(''error'', JString ''Notification not found'')],
                Some (example_notes [note2, note3]))"
proof -
  have a: "ObjectIDFromHex (Param (request False [] ''abc'') ''id'') = Inl ErrInvalidHex"
    by (simp add: hex_defs request_defs request_def)
  have b: "ObjectIDFromHex (Param (request False [] ''000000000000000000000009'') ''id'') = Inr (oid 9)"
    by (simp add: hex_defs request_defs request_def oid_def)
  have c: "ObjectIDFromHex (Param (request False [] ''000000000000000000000001'') ''id'') = Inr (oid 1)"
    by (simp add: hex_defs request_defs request_def oid_def)
  have u: "\<not> unavailable (notifications example_db)"
    by (simp add: example_db_def example_notes_def)
  have n9: "\<not> list_ex (\<lambda>d. ID d = oid 9) (docs (notifications example_db))"
    by (simp add: example_defs)
  have e1: "list_ex (\<lambda>d. ID d = oid 1) (docs (notifications example_db))"
    by (simp add: example_defs)
  have di: "distinct (map ID (docs (notifications example_db)))"
    by (simp add: example_defs)
  have d1: "example_db\<lparr>notifications := (notifications example_db)
              \<lparr>docs := filter (\<lambda>d. ID d \<noteq> oid 1) (docs (notifications example_db))\<rparr>\<rparr> =
            example_notes [note2, note3]"
    by (simp add: example_defs)
  note A = malformed_absent_and_deleted_identifiers
             [of "request False [] ''abc''" ErrInvalidHex None, THEN conjunct1, rule_format, OF a]
  note B = malformed_absent_and_deleted_identifiers
             [of "request False [] ''000000000000000000000009''" _ _ "oid 9" example_db,
              THEN conjunct2, THEN conjunct1, rule_format, OF conjI [OF b conjI [OF u n9]]]
  note C = malformed_absent_and_deleted_identifiers
             [of "request False [] ''000000000000000000000001''" _ _ "oid 1" example_db,
              THEN conjunct2, THEN conjunct2, rule_format,
              OF conjI [OF c conjI [OF u conjI [OF e1 di]]], unfolded Let_def d1]
  from A B C a b c u n9 e1 di show ?thesis
    by simp
qed

subsection \<open>Marking everything read\<close>

text \<open>
  Claim C10. \<^verbatim>\<open>MarkAllNotificationsAsRead\<close> selects on \<open>is_read = false\<close>, and on the
  owner when the caller is not an administrator and has a user identifier; it reads no
  clock and no expiry. On a store that answers: for an administrator (or a caller without
  user identifier) every record is read afterwards and \<open>updated_count\<close> is the number of
  unread records of the whole collection, expired ones and system notifications
  included; for another caller whose identifier parses to \<open>U\<close>, the records of owner \<open>U\<close>
  are read afterwards, the others are unchanged, and \<open>updated_count\<close> is the number of
  unread records of owner \<open>U\<close>, expired ones included.
\<close>

theorem mark_all_read_ignores_expiry:
  assumes "\<not> unavailable (notifications db)"
  shows "(GetBool c ''is_admin'' \<or> GetString c ''user_id'' = [] \<longrightarrow>
            MarkAllNotificationsAsRead c (Some db) =
              Returns (Response StatusOK
                         [(''success'', JBool True),
                          (''message'', JString ''All notifications marked as read''),
                          (''updated_count'',
                             JInt (int (length (filter (\<lambda>d. \<not> IsRead d) (docs (notifications db))))))],
                       Some (db\<lparr>notifications := (notifications db)
                               \<lparr>docs := map (\<lambda>d. d\<lparr>IsRead := True\<rparr>) (docs (notifications db))\<rparr>\<rparr>)))
       \<and> (\<not> GetBool c ''is_admin'' \<and> GetString c ''user_id'' \<noteq> []
            \<and> ObjectIDFromHex (GetString c ''user_id'') = Inr U \<longrightarrow>
            MarkAllNotificationsAsRead c (Some db) =
              Returns (Response StatusOK
                         [(''success'', JBool True),
                          (''message'', JString ''All notifications marked as read''),
                          (''updated_count'',
                             JInt (int (length (filter (\<lambda>d. \<not> IsRead d \<and> UserID d = U)
                                                  (docs (notifications db))))))],
                       Some (db\<lparr>notifications := (notifications db)
                               \<lparr>docs := map (\<lambda>d. if UserID d = U then d\<lparr>IsRead := True\<rparr> else d)
                                          (docs (notifications db))\<rparr>\<rparr>)))"
  using MarkAll_privileged [OF assms] MarkAll_owner [OF assms]
  by blast

theorem mark_all_read_ignores_expiry_witness:
  "\<not> unavailable (notifications example_db)
   \<and> GetBool (request True [] []) ''is_admin''
   \<and> ExpiresAt note1 < 250 \<and> \<not> IsRead note1
   \<and> UserID note3 = NilObjectID \<and> \<not> IsRead note3
   \<and> MarkAllNotificationsAsRead (request True [] []) (Some example_db) =
       Returns (Response StatusOK
                  [(''success'', JBool True),
                   (''message'', JString ''All notifications marked as read''),
                   (''updated_count'', JInt 2)],
                Some (example_notes [note1\<lparr>IsRead := True\<rparr>, note2, note3\<lparr>IsRead := True\<rparr>]))
   \<and> \<not> GetBool (request False ''000000000000000000000015'' []) ''is_admin''
   \<and> GetString (request False ''000000000000000000000015'' []) ''user_id'' \<noteq> []
   \<and> ObjectIDFromHex (GetString (request False ''000000000000000000000015'' []) ''user_id'') =
       Inr (oid 21)
   \<and> MarkAllNotificationsAsRead (request False ''000000000000000000000015'' []) (Some example_db) =
       Returns (Response StatusOK
                  [(''success'', JBool True),
                   (''message'', JString ''All notifications marked as read''),
                   (''updated_count'', JInt 1)],
                Some (example_notes [note1\<lparr>IsRead := True\<rparr>, note2, note3]))"
proof -
  have u: "\<not> unavailable (notifications example_db)"
    by (simp add: example_db_def example_notes_def)
  have a: "GetBool (request True [] []) ''is_admin''"
    by (simp add: request_defs request_def)
  have b: "\<not> GetBool (request False ''000000000000000000000015'' []) ''is_admin''"
    "GetString (request False ''000000000000000000000015'' []) ''user_id'' \<noteq> []"
    by (simp_all add: request_defs request_def)
  have p: "ObjectIDFromHex (GetString (request False ''000000000000000000000015'' []) ''user_id'') =
       Inr (oid 21)"
    by (simp add: hex_defs request_defs request_def oid_def)
  have f: "ExpiresAt note1 < 250" "\<not> IsRead note1" "UserID note3 = NilObjectID" "\<not> IsRead note3"
    by (simp_all add: note1_def note3_def)
  have d1: "example_db\<lparr>notifications := (notifications example_db)
              \<lparr>docs := map (\<lambda>d. d\<lparr>IsRead := True\<rparr>) (docs (notifications example_db))\<rparr>\<rparr> =
            example_notes [note1\<lparr>IsRead := True\<rparr>, note2, note3\<lparr>IsRead := True\<rparr>]"
    by (simp add: example_db_def example_notes_def note2_def)
  have d2: "example_db\<lparr>notifications := (notifications example_db)
              \<lparr>docs := map (\<lambda>d. if UserID d = oid 21 then d\<lparr>IsRead := True\<rparr> else d)
                         (docs (notifications example_db))\<rparr>\<rparr> =
            example_notes [note1\<lparr>IsRead := True\<rparr>, note2, note3]"
    by (simp add: example_defs)
  have n1: "int (length (filter (\<lambda>d. \<not> IsRead d) (docs (notifications example_db)))) = 2"
    by (simp add: example_defs)
  have n2: "int (length (filter (\<lambda>d. \<not> IsRead d \<and> UserID d = oid 21)
                          (docs (notifications example_db)))) = 1"
    by (simp add: example_defs)
  note A = mark_all_read_ignores_expiry [OF u, of "request True [] []", THEN conjunct1,
             rule_format, OF disjI1 [OF a], unfolded d1 n1]
  note B = mark_all_read_ignores_expiry [OF u, of "request False ''000000000000000000000015'' []"
             "oid 21", THEN conjunct2, rule_format, OF conjI [OF b(1) conjI [OF b(2) p]],
             unfolded d2 n2]
  from A B u a b p f show ?thesis
    by simp
qed

subsection \<open>Who sees and who changes a notification\<close>

text \<open>
  Claim C1 says that a caller of \<^verbatim>\<open>GetNotifications\<close> who is not an administrator only
  receives notifications of its own owner identifier. The owner condition is added only
  when the caller has a user identifier: a caller that is not an administrator and has
  none receives the notifications of every owner, here those of the users \<open>0x15\<close> and
  \<open>0x16\<close> and the system notification.
\<close>

theorem unowned_caller_lists_every_owner_counterexample:
  "\<not> GetBool (request False [] []) ''is_admin''
   \<and> GetNotifications 150 (request False [] []) (Some example_db) =
       Returns (Response StatusOK
                  [(''success'', JBool True),
                   (''notifications'', JNotifications [note2, note3, note1]),
                   (''count'', JInt 3),
                   (''unread_count'', JInt 2),
                   (''filter_applied'', JObject [(''type'', JString []), (''project_id'', JString [])])],
                Some example_db)
   \<and> UserID note1 = oid 21 \<and> UserID note2 = oid 22 \<and> oid 21 \<noteq> oid 22"
  by (simp add: GetNotifications_def GetNotifications_filter_def GetNotificationsCollection_def
      Find_def CountDocuments_def cursor_All_def matches_def request_defs example_defs)

text \<open>
  Claim C1, as the code has it. For a caller of \<^verbatim>\<open>GetNotifications\<close> that is not an
  administrator and has a non-empty user identifier: when the identifier parses to \<open>U\<close>,
  every notification returned has owner \<open>U\<close>; when it does not parse, the answer is the
  status 400. A caller that is an administrator or has no user identifier is not
  restricted to an owner: its answer is the one an administrator gets.
\<close>

theorem listing_owner_scope:
  assumes "GetNotifications now c DB = Returns (r, DB')"
  shows "(\<not> GetBool c ''is_admin'' \<and> GetString c ''user_id'' \<noteq> [] \<longrightarrow>
            (case ObjectIDFromHex (GetString c ''user_id'') of
               Inl e \<Rightarrow> r = Response StatusBadRequest [(''error'', JString ''Invalid user ID'')]
             | Inr U \<Rightarrow> \<forall>d \<in> set (notifications_of r). UserID d = U))
       \<and> (GetBool c ''is_admin'' \<or> GetString c ''user_id'' = [] \<longrightarrow>
            GetNotifications now (c\<lparr>Keys := [(''is_admin'', KBool True)]\<rparr>) DB = Returns (r, DB'))"
proof (intro conjI impI)
  assume h: "\<not> GetBool c ''is_admin'' \<and> GetString c ''user_id'' \<noteq> []"
  show "case ObjectIDFromHex (GetString c ''user_id'') of
               Inl e \<Rightarrow> r = Response StatusBadRequest [(''error'', JString ''Invalid user ID'')]
             | Inr U \<Rightarrow> \<forall>d \<in> set (notifications_of r). UserID d = U"
  proof (cases "ObjectIDFromHex (GetString c ''user_id'')")
    case (Inl e)
    with h have "GetNotifications_filter now c =
                   Inl (Response StatusBadRequest [(''error'', JString ''Invalid user ID'')])"
      by (simp add: GetNotifications_filter_def)
    with assms have "r = Response StatusBadRequest [(''error'', JString ''Invalid user ID'')]"
      by (auto simp: GetNotifications_def GetNotificationsCollection_def split: option.splits)
    with Inl show ?thesis by simp
  next
    case (Inr U)
    have "\<forall>d \<in> set (notifications_of r). UserID d = U"
    proof
      fix d assume d: "d \<in> set (notifications_of r)"
      then have ne: "notifications_of r \<noteq> []" by auto
      with GetNotifications_listing [OF assms] obtain db :: Database and flt
        where flt: "GetNotifications_filter now c = Inr flt"
          and ns: "notifications_of r =
                     take 50 (sort_key (\<lambda>d. - CreatedAt d) (filter (matches flt) (docs (notifications db))))"
        by blast
      from d ns have m: "matches flt d"
        using in_take_sort_filter by metis
      from GetNotifications_filter_owner [OF flt] h obtain U'
        where "ObjectIDFromHex (GetString c ''user_id'') = Inr U'"
          and "\<forall>d. matches flt d \<longrightarrow> UserID d = U'"
        by blast
      with Inr m show "UserID d = U" by simp
    qed
    with Inr show ?thesis by simp
  qed
next
  assume "GetBool c ''is_admin'' \<or> GetString c ''user_id'' = []"
  then have f: "GetNotifications_filter now (c\<lparr>Keys := [(''is_admin'', KBool True)]\<rparr>) =
                GetNotifications_filter now c"
    by (rule GetNotifications_filter_keys [symmetric])
  have q: "\<And>k. Query (c\<lparr>Keys := [(''is_admin'', KBool True)]\<rparr>) k = Query c k"
    by (simp add: Query_def)
  have "GetNotifications now (c\<lparr>Keys := [(''is_admin'', KBool True)]\<rparr>) DB =
             GetNotifications now c DB"
    by (simp only: GetNotifications_def f q)
  with assms show "GetNotifications now (c\<lparr>Keys := [(''is_admin'', KBool True)]\<rparr>) DB = Returns (r, DB')"
    by simp
qed

theorem listing_owner_scope_witness:
  "GetNotifications 150 (request False ''000000000000000000000015'' []) (Some example_db) =
     Returns (Response StatusOK
                [(''success'', JBool True),
                 (''notifications'', JNotifications [note1]),
                 (''count'', JInt 1),
                 (''unread_count'', JInt 1),
                 (''filter_applied'', JObject [(''type'', JString []), (''project_id'', JString [])])],
              Some example_db)
   \<and> \<not> GetBool (request False ''000000000000000000000015'' []) ''is_admin''
   \<and> GetString (request False ''000000000000000000000015'' []) ''user_id'' \<noteq> []
   \<and> ObjectIDFromHex (GetString (request False ''000000000000000000000015'' []) ''user_id'') =
       Inr (oid 21)
   \<and> list_all (\<lambda>d. UserID d = oid 21) [note1]
   \<and> GetNotifications 150 (request False [] []) (Some example_db) =
     Returns (Response StatusOK
                [(''success'', JBool True),
                 (''notifications'', JNotifications [note2, note3, note1]),
                 (''count'', JInt 3),
                 (''unread_count'', JInt 2),
                 (''filter_applied'', JObject [(''type'', JString []), (''project_id'', JString [])])],
              Some example_db)
   \<and> GetString (request False [] []) ''user_id'' = []
   \<and> GetNotifications 150 ((request False [] [])\<lparr>Keys := [(''is_admin'', KBool True)]\<rparr>)
         (Some example_db) =
     Returns (Response StatusOK
                [(''success'', JBool True),
                 (''notifications'', JNotifications [note2, note3, note1]),
                 (''count'', JInt 3),
                 (''unread_count'', JInt 2),
                 (''filter_applied'', JObject [(''type'', JString []), (''project_id'', JString [])])],
              Some example_db)"
proof -
  let ?R1 = "Response StatusOK
                [(''success'', JBool True),
                 (''notifications'', JNotifications [note1]),
                 (''count'', JInt 1),
                 (''unread_count'', JInt 1),
                 (''filter_applied'', JObject [(''type'', JString []), (''project_id'', JString [])])]"
  have h1: "GetNotifications 150 (request False ''000000000000000000000015'' []) (Some example_db) =
     Returns (?R1, Some example_db)"
    by (simp add: GetNotifications_def GetNotifications_filter_def GetNotificationsCollection_def
        Find_def CountDocuments_def cursor_All_def matches_def request_defs hex_defs example_defs)
  have h2: "GetNotifications 150 (request False [] []) (Some example_db) =
     Returns (Response StatusOK
                [(''success'', JBool True),
                 (''notifications'', JNotifications [note2, note3, note1]),
                 (''count'', JInt 3),
                 (''unread_count'', JInt 2),
                 (''filter_applied'', JObject [(''type'', JString []), (''project_id'', JString [])])],
              Some example_db)"
    by (simp add: GetNotifications_def GetNotifications_filter_def GetNotificationsCollection_def
        Find_def CountDocuments_def cursor_All_def matches_def request_defs example_defs)
  have b: "\<not> GetBool (request False ''000000000000000000000015'' []) ''is_admin''"
    "GetString (request False ''000000000000000000000015'' []) ''user_id'' \<noteq> []"
    "GetString (request False [] []) ''user_id'' = []"
    by (simp_all add: request_defs request_def)
  have p: "ObjectIDFromHex (GetString (request False ''000000000000000000000015'' []) ''user_id'') =
       Inr (oid 21)"
    by (simp add: hex_defs request_defs request_def oid_def)
  have r: "notifications_of ?R1 = [note1]"
    by (simp add: notifications_of_def)
  note A = listing_owner_scope [OF h1, THEN conjunct1, rule_format, OF conjI [OF b(1) b(2)],
             unfolded p sum.case r]
  note B = listing_owner_scope [OF h2, THEN conjunct2, rule_format, OF disjI2 [OF b(3)]]
  from A B h1 h2 b p show ?thesis
    by (simp add: list_all_iff)
qed

text \<open>
  Claim C3 says that \<^verbatim>\<open>MarkNotificationAsRead\<close> and \<^verbatim>\<open>DeleteNotification\<close> refuse a caller
  that is not an administrator and does not own the record. Neither handler reads the
  caller's identity: the user \<open>0x16\<close>, not an administrator, marks as read and deletes the
  notification of the user \<open>0x15\<close>, and both calls succeed.
\<close>

theorem any_caller_marks_and_deletes_counterexample:
  "\<not> GetBool (request False ''000000000000000000000016'' ''000000000000000000000001'') ''is_admin''
   \<and> ObjectIDFromHex
         (GetString (request False ''000000000000000000000016'' ''000000000000000000000001'') ''user_id'') =
       Inr (oid 22)
   \<and> ID note1 = oid 1 \<and> UserID note1 = oid 21 \<and> oid 21 \<noteq> oid 22
   \<and> MarkNotificationAsRead (request False ''000000000000000000000016'' ''000000000000000000000001'')
         (Some example_db) =
       Returns (Response StatusOK
                  [(''success'', JBool True), (''message'', JString ''Notification marked as read'')],
                Some (example_notes [note1\<lparr>IsRead := True\<rparr>, note2, note3]))
   \<and> DeleteNotification (request False ''000000000000000000000016'' ''000000000000000000000001'')
         (Some example_db) =
       Returns (Response StatusOK
                  [(''success'', JBool True),
                   (''message'', JString ''Notification deleted successfully'')],
                Some (example_notes [note2, note3]))"
  by (simp add: MarkNotificationAsRead_def DeleteNotification_def GetNotificationsCollection_def
      UpdateOne_def DeleteOne_def store_notifications_def request_defs hex_defs example_defs)

text \<open>
  Claim C3, as the code has it. The outcome of \<^verbatim>\<open>MarkNotificationAsRead\<close> and of
  \<^verbatim>\<open>DeleteNotification\<close> depends on the path parameters and the database only: two
  callers giving the same parameters get the same answer and leave the same database,
  whatever their role and user identifier. The status of an answer is 200, 400, 404 or
  500, never 401 or 403.
\<close>

theorem read_and_delete_ignore_the_caller:
  assumes "Params c = Params c'"
  shows "MarkNotificationAsRead c DB = MarkNotificationAsRead c' DB
       \<and> DeleteNotification c DB = DeleteNotification c' DB
       \<and> (MarkNotificationAsRead c DB = Returns (r, DB') \<longrightarrow>
            status r \<in> {StatusOK, StatusBadRequest, StatusNotFound, StatusInternalServerError}
            \<and> status r \<noteq> StatusUnauthorized \<and> status r \<noteq> StatusForbidden)
       \<and> (DeleteNotification c DB = Returns (r, DB') \<longrightarrow>
            status r \<in> {StatusOK, StatusBadRequest, StatusNotFound, StatusInternalServerError}
            \<and> status r \<noteq> StatusUnauthorized \<and> status r \<noteq> StatusForbidden)"
proof -
  have p: "Param c ''id'' = Param c' ''id''"
    using assms by (simp add: Param_def)
  have a: "MarkNotificationAsRead c DB = MarkNotificationAsRead c' DB"
    by (simp only: MarkNotificationAsRead_def p)
  have b: "DeleteNotification c DB = DeleteNotification c' DB"
    by (simp only: DeleteNotification_def p)
  have m: "MarkNotificationAsRead c DB = Returns (r, DB') \<longrightarrow>
            status r \<in> {StatusOK, StatusBadRequest, StatusNotFound, StatusInternalServerError}
            \<and> status r \<noteq> StatusUnauthorized \<and> status r \<noteq> StatusForbidden"
    using MarkNotificationAsRead_status [of c DB r DB'] by auto
  have d: "DeleteNotification c DB = Returns (r, DB') \<longrightarrow>
            status r \<in> {StatusOK, StatusBadRequest, StatusNotFound, StatusInternalServerError}
            \<and> status r \<noteq> StatusUnauthorized \<and> status r \<noteq> StatusForbidden"
    using DeleteNotification_status [of c DB r DB'] by auto
  show ?thesis
    by (intro conjI) (rule a, rule b, rule m, rule d)
qed

theorem read_and_delete_ignore_the_caller_witness:
  "Params (request False ''000000000000000000000016'' ''000000000000000000000001'') =
     Params (request True [] ''000000000000000000000001'')
   \<and> MarkNotificationAsRead (request False ''000000000000000000000016'' ''000000000000000000000001'')
         (Some example_db) =
       MarkNotificationAsRead (request True [] ''000000000000000000000001'') (Some example_db)
   \<and> DeleteNotification (request False ''000000000000000000000016'' ''000000000000000000000001'')
         (Some example_db) =
       DeleteNotification (request True [] ''000000000000000000000001'') (Some example_db)
   \<and> MarkNotificationAsRead (request False ''000000000000000000000016'' ''000000000000000000000001'')
         (Some example_db) =
       Returns (Response StatusOK
                  [(''success'', JBool True), (''message'', JString ''Notification marked as read'')],
                Some (example_notes [note1\<lparr>IsRead := True\<rparr>, note2, note3]))
   \<and> status (Response StatusOK
                [(''success'', JBool True), (''message'', JString ''Notification marked as read'')])
       \<noteq> StatusUnauthorized"
proof -
  have h: "Params (request False ''000000000000000000000016'' ''000000000000000000000001'') =
     Params (request True [] ''000000000000000000000001'')"
    by (simp add: request_def)
  have m: "MarkNotificationAsRead (request False ''000000000000000000000016'' ''000000000000000000000001'')
         (Some example_db) =
       Returns (Response StatusOK
                  [(''success'', JBool True), (''message'', JString ''Notification marked as read'')],
                Some (example_notes [note1\<lparr>IsRead := True\<rparr>, note2, note3]))"
    by (simp add: MarkNotificationAsRead_def GetNotificationsCollection_def
        UpdateOne_def store_notifications_def request_defs hex_defs example_defs)
  note T = read_and_delete_ignore_the_caller [OF h, of "Some example_db"]
  note A = T [THEN conjunct1]
  note B = T [THEN conjunct2, THEN conjunct1]
  note C = T [THEN conjunct2, THEN conjunct2, THEN conjunct1, rule_format, OF m]
  from A B C h m show ?thesis
    by simp
qed

subsection \<open>Expiry at creation\<close>

text \<open>
  Claim C4 says that every record created by \<^verbatim>\<open>CreateNotification\<close> has
  \<open>expires_at > created_at\<close>. The configured offset is added as it is: with the default
  expiry set to \<^verbatim>\<open>0s\<close> in the environment, the record expires at the reading of the
  clock taken for the expiry, which is before the later reading taken for \<open>created_at\<close>.
\<close>

theorem zero_expiry_counterexample:
  "CreateNotification
     (InitNotificationConfig example_getenv example_ParseDuration (\<lambda>_. None) (\<lambda>_. None))
     example_clock (oid 4) (Some (example_notes []))
     (oid 10) (oid 21) ''info'' ''title'' ''message'' [] =
   Returns (None,
            Some (example_notes
                    [\<lparr>ID = oid 4, ProjectID = oid 10, UserID = oid 21, Type = ''info'',
                      Title = ''title'', Message = ''message'', IsRead = False,
                      CreatedAt = 1002, ExpiresAt = 1001, Metadata = []\<rparr>]))"
  by (simp add: CreateNotification_def InitNotificationConfig_def parseDuration_def
      example_getenv_def example_ParseDuration_def example_clock_def
      GetNotificationsCollection_def InsertOne_def store_notifications_def example_defs)

text \<open>
  Claim C4, as the code has it. On a store that answers and with an unused identifier,
  \<^verbatim>\<open>CreateNotification\<close> returns without error and appends one unread record whose
  \<open>expires_at\<close> is a reading of the clock plus the configured \<^verbatim>\<open>DefaultExpiry\<close>, or plus
  24 hours when there is no configuration, and whose \<open>created_at\<close> is the next reading
  of the clock. The record has \<open>expires_at > created_at\<close> exactly when that offset is
  greater than the time between the two readings.
\<close>

theorem created_expiry_offset:
  assumes "\<not> unavailable (notifications db)"
    and "fresh \<notin> ID ` set (docs (notifications db))"
  shows "let n = \<lparr>ID = fresh, ProjectID = projectID, UserID = userID, Type = notificationType,
                  Title = title, Message = message, IsRead = False,
                  CreatedAt = (case settings of None \<Rightarrow> clock 1 | Some cfg \<Rightarrow> clock 2),
                  ExpiresAt = (case settings of
                                 None \<Rightarrow> clock 0 + 24 * Hour
                               | Some cfg \<Rightarrow> clock 1 + DefaultExpiry cfg),
                  Metadata = metadata\<rparr>
         in CreateNotification settings clock fresh (Some db)
              projectID userID notificationType title message metadata =
              Returns (None,
                       Some (db\<lparr>notifications := (notifications db)
                               \<lparr>docs := docs (notifications db) @ [n]\<rparr>\<rparr>))
          \<and> (CreatedAt n < ExpiresAt n \<longleftrightarrow>
                 (case settings of
                    None \<Rightarrow> clock 1 - clock 0 < 24 * Hour
                  | Some cfg \<Rightarrow> clock 2 - clock 1 < DefaultExpiry cfg))"
proof (cases settings)
  case None
  with assms show ?thesis
    by (auto simp: CreateNotification_def GetNotificationsCollection_def InsertOne_def
        store_notifications_def Let_def)
next
  case (Some cfg)
  with assms show ?thesis
    by (auto simp: CreateNotification_def GetNotificationsCollection_def InsertOne_def
        store_notifications_def Let_def)
qed

theorem created_expiry_offset_witness:
  "\<not> unavailable (notifications example_db)
   \<and> oid 4 \<notin> ID ` set (docs (notifications example_db))
   \<and> CreateNotification None example_clock (oid 4) (Some example_db)
        (oid 10) (oid 21) ''info'' ''title'' ''message'' [] =
      Returns (None,
               Some (example_notes
                       [note1, note2, note3,
                        \<lparr>ID = oid 4, ProjectID = oid 10, UserID = oid 21, Type = ''info'',
                         Title = ''title'', Message = ''message'', IsRead = False,
                         CreatedAt = 1001, ExpiresAt = 86400000001000, Metadata = []\<rparr>]))
   \<and> example_clock 1 - example_clock 0 < 24 * Hour"
proof -
  have u: "\<not> unavailable (notifications example_db)"
    by (simp add: example_db_def example_notes_def)
  have f: "oid 4 \<notin> ID ` set (docs (notifications example_db))"
    by (simp add: example_defs)
  have c: "example_clock 1 - example_clock 0 < 24 * Hour"
    by (simp add: example_clock_def)
  from created_expiry_offset [OF u f, where projectID = "oid 10" and userID = "oid 21"
         and notificationType = "''info''" and title = "''title''" and message = "''message''"
         and settings = None and clock = example_clock and metadata = "[]"] u f c
  show ?thesis
    by (simp add: Let_def example_clock_def example_db_def example_notes_def)
qed

end
